theory Spec2Isabelle
  imports Complex_Main "HOL-Library.Char_ord" "HOL-Library.List_Lexorder"
    "HOL-Library.Log_Nat" "HOL-Library.Option_ord"
begin

section \<open>Python floats\<close>

text \<open>
  A Python \<open>float\<close> is an IEEE 754 binary64 value: a finite number, one of the two
  infinities, or NaN. \<open>Fin x\<close> is the finite value \<open>x\<close>, with \<open>Fin 0\<close> for \<open>0.0\<close>, and
  \<open>NegZero\<close> is \<open>-0.0\<close>. The finite values a float can take are those that rounding leaves
  unchanged (\<open>round_double x = Fin x\<close> below); the arithmetic produces no others.
\<close>

datatype double = Fin real | NegZero | PInf | NInf | NaN

text \<open>Rounding to the nearest integer, a tie to the even one.\<close>

definition round_half_even :: "real \<Rightarrow> int" where
  "round_half_even r =
     (if r - of_int \<lfloor>r\<rfloor> < 1 / 2 then \<lfloor>r\<rfloor>
      else if 1 / 2 < r - of_int \<lfloor>r\<rfloor> then \<lfloor>r\<rfloor> + 1
      else if even \<lfloor>r\<rfloor> then \<lfloor>r\<rfloor> else \<lfloor>r\<rfloor> + 1)"

text \<open>
  Every finite binary64 value is a multiple of the smallest positive one, 2 to the power
  -1074. A magnitude \<open>u\<close>, counted in these units, keeps 53 significant bits: below 2 to
  the power 53 units it is rounded to a whole number of units (the subnormal and the
  smallest normal values), and above to a multiple of \<open>2 ^ k\<close> units, where \<open>k\<close> is the
  number of bits of its integer part beyond 53.
\<close>

definition ulp_shift :: "real \<Rightarrow> nat" where
  "ulp_shift u = nat (bitlen \<lfloor>u\<rfloor> - 53)"

definition round_units :: "real \<Rightarrow> real" where
  "round_units u = of_int (round_half_even (u / 2 ^ ulp_shift u)) * 2 ^ ulp_shift u"

definition units :: real where
  "units = 2 ^ 1074"

definition overflow_threshold :: real where
  "overflow_threshold = 2 ^ 1024"

text \<open>The float nearest to a real number (round to nearest, ties to even): a magnitude
  that rounds to 2 to the power 1024 or more becomes an infinity, and a negative number
  that rounds to zero becomes \<open>-0.0\<close>.\<close>

definition round_double :: "real \<Rightarrow> double" where
  "round_double x =
     (let m = round_units (\<bar>x\<bar> * units) / units in
      if overflow_threshold \<le> m then (if x < 0 then NInf else PInf)
      else if m = 0 then (if x < 0 then NegZero else Fin 0)
      else Fin (if x < 0 then - m else m))"

text \<open>Negation, addition, subtraction and the division by 4 of floats. A finite result
  is the exact result rounded; a sum of finite operands that is exactly zero is \<open>0.0\<close>,
  unless both operands are \<open>-0.0\<close>.\<close>

fun double_neg :: "double \<Rightarrow> double" where
  "double_neg (Fin x) = (if x = 0 then NegZero else Fin (- x))"
| "double_neg NegZero = Fin 0"
| "double_neg PInf = NInf"
| "double_neg NInf = PInf"
| "double_neg NaN = NaN"

fun double_add :: "double \<Rightarrow> double \<Rightarrow> double" where
  "double_add NaN b = NaN"
| "double_add a NaN = NaN"
| "double_add PInf NInf = NaN"
| "double_add NInf PInf = NaN"
| "double_add PInf b = PInf"
| "double_add a PInf = PInf"
| "double_add NInf b = NInf"
| "double_add a NInf = NInf"
| "double_add NegZero NegZero = NegZero"
| "double_add NegZero (Fin y) = round_double y"
| "double_add (Fin x) NegZero = round_double x"
| "double_add (Fin x) (Fin y) = round_double (x + y)"

definition double_sub :: "double \<Rightarrow> double \<Rightarrow> double" where
  "double_sub a b = double_add a (double_neg b)"

fun double_quarter :: "double \<Rightarrow> double" where
  "double_quarter (Fin x) = round_double (x / 4)"
| "double_quarter NegZero = NegZero"
| "double_quarter PInf = PInf"
| "double_quarter NInf = NInf"
| "double_quarter NaN = NaN"

text \<open>The order of the comparison operators: a number, an infinity, or NaN, which is
  neither below, equal to nor above anything. \<open>xless\<close> is \<open><\<close> and \<open>xle\<close> is \<open><=\<close>.\<close>

datatype xval = Unordered | MinusInf | Val real | PlusInf

fun xval_of :: "double \<Rightarrow> xval" where
  "xval_of (Fin x) = Val x"
| "xval_of NegZero = Val 0"
| "xval_of PInf = PlusInf"
| "xval_of NInf = MinusInf"
| "xval_of NaN = Unordered"

fun xless :: "xval \<Rightarrow> xval \<Rightarrow> bool" where
  "xless Unordered b = False"
| "xless a Unordered = False"
| "xless MinusInf MinusInf = False"
| "xless MinusInf b = True"
| "xless (Val x) (Val y) = (x < y)"
| "xless (Val x) PlusInf = True"
| "xless (Val x) MinusInf = False"
| "xless PlusInf b = False"

definition xle :: "xval \<Rightarrow> xval \<Rightarrow> bool" where
  "xle a b = (a \<noteq> Unordered \<and> b \<noteq> Unordered \<and> \<not> xless b a)"

section \<open>Python values shared by the three scripts\<close>

text \<open>
  The scripts exchange data with their tools as JSON. A decoded JSON document is a Python
  value: \<open>None\<close>, a \<open>bool\<close>, an \<open>int\<close> (unbounded), a \<open>float\<close> (\<open>json\<close> also reads \<open>NaN\<close>,
  \<open>Infinity\<close> and \<open>-Infinity\<close>), a \<open>str\<close>, a \<open>list\<close> or a \<open>dict\<close>. A \<open>dict\<close> is kept as the
  list of its items in insertion order (its keys are distinct). Strings are lists of
  characters; tool output is taken to be ASCII text.
\<close>

datatype json =
    JNull
  | JBool bool
  | JInt int
  | JFloat double
  | JStr string
  | JArr "json list"
  | JObj "(string \<times> json) list"

text \<open>The exceptions the scripts can meet. \<open>OtherError\<close> stands for any further
  subclass of \<open>Exception\<close> (\<open>PermissionError\<close>, \<open>RecursionError\<close>, ...).\<close>

datatype py_error =
    AttributeError
  | TypeError
  | ValueError
  | OverflowError
  | JSONDecodeError
  | UnicodeDecodeError
  | OSError
  | OtherError

text \<open>Sequencing of computations that may raise: the first exception wins.\<close>

definition bind_err :: "py_error + 'a \<Rightarrow> ('a \<Rightarrow> py_error + 'b) \<Rightarrow> py_error + 'b" where
  "bind_err m f = (case m of Inl e \<Rightarrow> Inl e | Inr x \<Rightarrow> f x)"

text \<open>\<open>d.get(k, default)\<close>: only a \<open>dict\<close> has the method.\<close>

fun py_get :: "json \<Rightarrow> string \<Rightarrow> json \<Rightarrow> py_error + json" where
  "py_get (JObj kvs) k d = Inr (case map_of kvs k of None \<Rightarrow> d | Some v \<Rightarrow> v)"
| "py_get _ k d = Inl AttributeError"

text \<open>\<open>d.items()\<close>: only a \<open>dict\<close> has the method.\<close>

fun py_items :: "json \<Rightarrow> py_error + (string \<times> json) list" where
  "py_items (JObj kvs) = Inr kvs"
| "py_items _ = Inl AttributeError"

text \<open>The numbers among the values: \<open>bool\<close> is a subclass of \<open>int\<close>.\<close>

datatype number = PyInt int | PyFloat double

fun as_number :: "json \<Rightarrow> number option" where
  "as_number (JInt i) = Some (PyInt i)"
| "as_number (JBool b) = Some (PyInt (if b then 1 else 0))"
| "as_number (JFloat d) = Some (PyFloat d)"
| "as_number _ = None"

text \<open>\<open>float(i)\<close>, the conversion an \<open>int\<close> undergoes when it meets a \<open>float\<close> in \<open>+\<close> or
  \<open>-\<close> and under \<open>:.1f\<close>: the nearest float, and \<open>OverflowError\<close> when that is beyond the
  largest finite one.\<close>

definition to_float :: "int \<Rightarrow> py_error + double" where
  "to_float i =
     (case round_double (of_int i) of
        PInf \<Rightarrow> Inl OverflowError
      | NInf \<Rightarrow> Inl OverflowError
      | d \<Rightarrow> Inr d)"

text \<open>\<open>a + b\<close>: exact on two \<open>int\<close>s, float addition as soon as one operand is a
  \<open>float\<close>, concatenation of two strings or two lists, and \<open>TypeError\<close> otherwise.\<close>

definition py_add :: "json \<Rightarrow> json \<Rightarrow> py_error + json" where
  "py_add a b =
     (case (as_number a, as_number b) of
        (Some (PyInt i), Some (PyInt j)) \<Rightarrow> Inr (JInt (i + j))
      | (Some (PyInt i), Some (PyFloat e)) \<Rightarrow>
          bind_err (to_float i) (\<lambda>d. Inr (JFloat (double_add d e)))
      | (Some (PyFloat d), Some (PyInt j)) \<Rightarrow>
          bind_err (to_float j) (\<lambda>e. Inr (JFloat (double_add d e)))
      | (Some (PyFloat d), Some (PyFloat e)) \<Rightarrow> Inr (JFloat (double_add d e))
      | _ \<Rightarrow>
          (case (a, b) of
             (JStr s, JStr t) \<Rightarrow> Inr (JStr (s @ t))
           | (JArr xs, JArr ys) \<Rightarrow> Inr (JArr (xs @ ys))
           | _ \<Rightarrow> Inl TypeError))"

text \<open>\<open>a / 4\<close>: the true division of an \<open>int\<close> by an \<open>int\<close> is the exact quotient rounded
  to the nearest float, with \<open>OverflowError\<close> beyond the largest finite one; a \<open>float\<close> is
  divided as a float; every other type raises \<open>TypeError\<close>.\<close>

definition py_div4 :: "json \<Rightarrow> py_error + json" where
  "py_div4 a =
     (case as_number a of
        Some (PyInt i) \<Rightarrow>
          (case round_double (of_int i / 4) of
             PInf \<Rightarrow> Inl OverflowError
           | NInf \<Rightarrow> Inl OverflowError
           | d \<Rightarrow> Inr (JFloat d))
      | Some (PyFloat d) \<Rightarrow> Inr (JFloat (double_quarter d))
      | None \<Rightarrow> Inl TypeError)"

text \<open>\<open>thr - a\<close> for a \<open>float\<close> \<open>thr\<close>.\<close>

definition py_rsub :: "double \<Rightarrow> json \<Rightarrow> py_error + double" where
  "py_rsub thr a =
     (case as_number a of
        Some (PyInt i) \<Rightarrow> bind_err (to_float i) (\<lambda>e. Inr (double_sub thr e))
      | Some (PyFloat e) \<Rightarrow> Inr (double_sub thr e)
      | None \<Rightarrow> Inl TypeError)"

text \<open>The comparisons \<open>a < thr\<close> and \<open>a >= thr\<close> against a \<open>float\<close>, and \<open>a > 0\<close>. An \<open>int\<close>
  is compared with a \<open>float\<close> by exact value, without conversion; a value that is not a
  number raises \<open>TypeError\<close>.\<close>

fun number_value :: "number \<Rightarrow> xval" where
  "number_value (PyInt i) = Val (of_int i)"
| "number_value (PyFloat d) = xval_of d"

definition py_lt :: "json \<Rightarrow> double \<Rightarrow> py_error + bool" where
  "py_lt a thr =
     (case as_number a of
        None \<Rightarrow> Inl TypeError
      | Some n \<Rightarrow> Inr (xless (number_value n) (xval_of thr)))"

definition py_ge :: "json \<Rightarrow> double \<Rightarrow> py_error + bool" where
  "py_ge a thr =
     (case as_number a of
        None \<Rightarrow> Inl TypeError
      | Some n \<Rightarrow> Inr (xle (xval_of thr) (number_value n)))"

definition py_gt_zero :: "json \<Rightarrow> py_error + bool" where
  "py_gt_zero a =
     (case as_number a of
        None \<Rightarrow> Inl TypeError
      | Some n \<Rightarrow> Inr (xless (Val 0) (number_value n)))"

text \<open>\<open>a == k\<close> for an \<open>int\<close> \<open>k\<close>.\<close>

definition py_eq_int :: "json \<Rightarrow> int \<Rightarrow> bool" where
  "py_eq_int a k =
     (case as_number a of
        None \<Rightarrow> False
      | Some n \<Rightarrow> number_value n = Val (of_int k))"

text \<open>\<open>f"{x:.1f}"\<close>: the float that is printed with one decimal, or the exception
  (\<open>ValueError\<close> for a \<open>str\<close>, \<open>TypeError\<close> for \<open>None\<close>, a \<open>list\<close> or a \<open>dict\<close>,
  \<open>OverflowError\<close> for an \<open>int\<close> that no float can hold).\<close>

definition format_1f :: "json \<Rightarrow> py_error + double" where
  "format_1f a =
     (case a of
        JStr s \<Rightarrow> Inl ValueError
      | _ \<Rightarrow>
          (case as_number a of
             None \<Rightarrow> Inl TypeError
           | Some (PyInt i) \<Rightarrow> to_float i
           | Some (PyFloat d) \<Rightarrow> Inr d))"

text \<open>The operating system and the Python library as one call of a script sees them:
  \<open>json.loads\<close> (\<open>None\<close> when it raises \<open>JSONDecodeError\<close>; documents nested so deeply
  that the decoder gives up with another exception are left out), \<open>Path.exists\<close>, the
  content of a file (\<open>None\<close> when opening or reading it raises),
  \<open>hashlib.sha256(...).hexdigest()\<close>, \<open>subprocess.run\<close> on an argument vector, \<open>str\<close> of a
  value inside an f-string, and the two readings of \<open>time.time()\<close> a validation can make
  (at the cache lookup and at the cache update). The readings of the clock are kept as real
  numbers: they are seconds since 1970, and the difference of two floats less than a
  factor two apart is exact. A run of a process ends with its return code, stdout and
  stderr, with one of the two exceptions the scripts name, or with another exception and
  its text. A path is given by its text, in the form \<open>pathlib\<close> prints it.\<close>

datatype proc_result =
    Completed int string string
  | TimeoutExpired
  | FileNotFound
  | RunError py_error string

record world =
  json_loads :: "string \<Rightarrow> json option"
  path_exists :: "string \<Rightarrow> bool"
  read_file :: "string \<Rightarrow> string option"
  sha256_hexdigest :: "string \<Rightarrow> string"
  subprocess_run :: "string list \<Rightarrow> proc_result"
  py_str :: "json \<Rightarrow> string"
  time_at_lookup :: real
  time_at_update :: real

text \<open>\<open>Path.name\<close>: the last component of a path (given as its text); the path \<open>.\<close> has
  no component.\<close>

definition path_name :: "string \<Rightarrow> string" where
  "path_name p = (if p = ''.'' then [] else rev (takeWhile (\<lambda>c. c \<noteq> CHR ''/'') (rev p)))"

text \<open>\<open>str.endswith\<close> and \<open>str.startswith\<close>.\<close>

definition endswith :: "string \<Rightarrow> string \<Rightarrow> bool" where
  "endswith s suf = (length suf \<le> length s \<and> drop (length s - length suf) s = suf)"

definition startswith :: "string \<Rightarrow> string \<Rightarrow> bool" where
  "startswith s pre = (take (length pre) s = pre)"

section \<open>The script \<open>coverage_validator.py\<close>\<close>

record coverage_report =
  total_percent :: json
  statement_percent :: json
  branch_percent :: json
  function_percent :: json
  line_percent :: json
  uncovered_files :: "(string \<times> json) list"

text \<open>The two attributes \<open>CoverageValidator.__init__\<close> reads from the environment with
  \<open>float(...)\<close>.\<close>

record coverage_validator =
  backend_threshold :: double
  frontend_threshold :: double

text \<open>The three strings \<open>detect_report_type\<close> can return: \<open>'coverage.py'\<close>, \<open>'jest'\<close> and
  \<open>'lcov'\<close>.\<close>

datatype report_type = Coverage_py | Jest | Lcov

definition detect_report_type :: "string \<Rightarrow> report_type option" where
  "detect_report_type report_path =
     (if path_name report_path = ''coverage.json'' then Some Coverage_py
      else if path_name report_path = ''coverage-summary.json'' then Some Jest
      else if endswith (path_name report_path) ''.info'' \<or> path_name report_path = ''lcov.info''
        then Some Lcov
      else None)"

text \<open>\<open>with open(report_path) as f: data = json.load(f)\<close>.\<close>

definition load_report :: "world \<Rightarrow> string \<Rightarrow> py_error + json" where
  "load_report w report_path =
     (case read_file w report_path of
        None \<Rightarrow> Inl OSError
      | Some txt \<Rightarrow> (case json_loads w txt of None \<Rightarrow> Inl JSONDecodeError | Some data \<Rightarrow> Inr data))"

text \<open>The loop of \<open>parse_coverage_py_report\<close> over \<open>data.get('files', {}).items()\<close>;
  \<open>uncovered\<close> is the list built so far, and \<open>coverage_py_file_percent\<close> is the expression
  \<open>file_data.get('summary', {}).get('percent_covered', 0.0)\<close>.\<close>

definition coverage_py_file_percent :: "json \<Rightarrow> py_error + json" where
  "coverage_py_file_percent file_data =
     bind_err (py_get file_data ''summary'' (JObj [])) (\<lambda>summary.
       py_get summary ''percent_covered'' (JFloat (Fin 0)))"

fun coverage_py_uncovered ::
  "double \<Rightarrow> (string \<times> json) list \<Rightarrow> (string \<times> json) list \<Rightarrow> py_error + (string \<times> json) list" where
  "coverage_py_uncovered thr [] uncovered = Inr uncovered"
| "coverage_py_uncovered thr ((file_path, file_data) # rest) uncovered =
     bind_err (coverage_py_file_percent file_data) (\<lambda>file_percent.
     bind_err (py_lt file_percent thr) (\<lambda>below.
       coverage_py_uncovered thr rest
         (if below then uncovered @ [(file_path, file_percent)] else uncovered)))"

text \<open>\<open>uncovered.sort(key=lambda x: x[1])\<close>: Python's sort is stable. It is applied to
  percentages that were found below a \<open>float\<close>: numbers other than NaN and \<open>Infinity\<close>,
  which \<open><\<close> orders by exact value, with \<open>-Infinity\<close> (the key \<open>None\<close>) below every finite
  one.\<close>

definition percent_key :: "json \<Rightarrow> real option" where
  "percent_key v =
     (case as_number v of
        None \<Rightarrow> None
      | Some n \<Rightarrow> (case number_value n of Val x \<Rightarrow> Some x | _ \<Rightarrow> None))"

definition sort_by_percent :: "(string \<times> json) list \<Rightarrow> (string \<times> json) list" where
  "sort_by_percent uncovered = sort_key (\<lambda>x. percent_key (snd x)) uncovered"

definition parse_coverage_py_report ::
  "coverage_validator \<Rightarrow> world \<Rightarrow> string \<Rightarrow> py_error + coverage_report" where
  "parse_coverage_py_report self w report_path =
     bind_err (load_report w report_path) (\<lambda>data.
     bind_err (py_get data ''totals'' (JObj [])) (\<lambda>totals.
     bind_err (py_get totals ''percent_covered'' (JFloat (Fin 0))) (\<lambda>total.
     bind_err (py_get data ''files'' (JObj [])) (\<lambda>files.
     bind_err (py_items files) (\<lambda>items.
     bind_err (coverage_py_uncovered (backend_threshold self) items []) (\<lambda>uncovered.
     bind_err (py_get totals ''percent_covered_branches'' (JFloat (Fin 0))) (\<lambda>branches.
       Inr \<lparr> total_percent = total,
             statement_percent = total,
             branch_percent = branches,
             function_percent = JFloat (Fin 0),
             line_percent = total,
             uncovered_files = sort_by_percent uncovered \<rparr>)))))))"

text \<open>\<open>totals.get(metric, {}).get('pct', 0.0)\<close>.\<close>

definition jest_pct :: "json \<Rightarrow> string \<Rightarrow> py_error + json" where
  "jest_pct totals metric =
     bind_err (py_get totals metric (JObj [])) (\<lambda>m. py_get m ''pct'' (JFloat (Fin 0)))"

text \<open>\<open>(statement_pct + branch_pct + function_pct + line_pct) / 4\<close>: the sums are taken
  from left to right, then the quotient.\<close>

definition jest_total :: "json \<Rightarrow> json \<Rightarrow> json \<Rightarrow> json \<Rightarrow> py_error + json" where
  "jest_total statement_pct branch_pct function_pct line_pct =
     bind_err (py_add statement_pct branch_pct) (\<lambda>sum2.
     bind_err (py_add sum2 function_pct) (\<lambda>sum3.
     bind_err (py_add sum3 line_pct) (\<lambda>sum4.
       py_div4 sum4)))"

text \<open>The loop of \<open>parse_jest_report\<close> over \<open>data.items()\<close>.\<close>

fun jest_uncovered ::
  "double \<Rightarrow> (string \<times> json) list \<Rightarrow> (string \<times> json) list \<Rightarrow> py_error + (string \<times> json) list" where
  "jest_uncovered thr [] uncovered = Inr uncovered"
| "jest_uncovered thr ((file_path, file_data) # rest) uncovered =
     (if file_path = ''total'' then jest_uncovered thr rest uncovered
      else
        bind_err (jest_pct file_data ''lines'') (\<lambda>file_line_pct.
        bind_err (py_lt file_line_pct thr) (\<lambda>below.
          jest_uncovered thr rest
            (if below then uncovered @ [(file_path, file_line_pct)] else uncovered))))"

definition parse_jest_report ::
  "coverage_validator \<Rightarrow> world \<Rightarrow> string \<Rightarrow> py_error + coverage_report" where
  "parse_jest_report self w report_path =
     bind_err (load_report w report_path) (\<lambda>data.
     bind_err (py_get data ''total'' (JObj [])) (\<lambda>totals.
     bind_err (jest_pct totals ''statements'') (\<lambda>statement_pct.
     bind_err (jest_pct totals ''branches'') (\<lambda>branch_pct.
     bind_err (jest_pct totals ''functions'') (\<lambda>function_pct.
     bind_err (jest_pct totals ''lines'') (\<lambda>line_pct.
     bind_err (jest_total statement_pct branch_pct function_pct line_pct) (\<lambda>total.
     bind_err (py_items data) (\<lambda>items.
     bind_err (jest_uncovered (frontend_threshold self) items []) (\<lambda>uncovered.
       Inr \<lparr> total_percent = total,
             statement_percent = statement_pct,
             branch_percent = branch_pct,
             function_percent = function_pct,
             line_percent = line_pct,
             uncovered_files = sort_by_percent uncovered \<rparr>)))))))))"

definition search_paths :: "string list" where
  "search_paths =
     [''coverage/coverage.json'', ''coverage/coverage-summary.json'', ''coverage.json'',
      ''coverage-summary.json'', ''coverage/lcov.info'', ''lcov.info'']"

definition find_coverage_report :: "world \<Rightarrow> string option" where
  "find_coverage_report w = List.find (path_exists w) search_paths"

text \<open>What \<open>validate_coverage\<close> and \<open>run\<close> print. A message is kept as the values its
  f-string shows instead of the rendered text: the figures of the summary (each a float
  printed with one decimal), and for a failure the gap and the listed files.\<close>

record coverage_figures =
  shown_total :: double
  shown_threshold :: double
  shown_stack :: string
  shown_statement :: double
  shown_branch :: double
  shown_function :: "double option"

datatype coverage_message =
    No_report_found
  | Unknown_format string
  | Lcov_not_supported
  | Failed_to_parse py_error
  | Coverage_passed coverage_figures
  | Coverage_failure coverage_figures double "(string \<times> double) list"

text \<open>The JSON object \<open>validate_coverage\<close> writes to stderr on a failure.\<close>

record stderr_data =
  coverage_percent :: json
  threshold :: double
  gap :: double
  listed_files :: "(string \<times> json) list"

text \<open>The lines of the summary shared by both branches: total, statement and branch
  percentages, and the function percentage when \<open>report.function_percent > 0\<close>.\<close>

definition figures_of :: "coverage_report \<Rightarrow> double \<Rightarrow> string \<Rightarrow> py_error + coverage_figures" where
  "figures_of report thr stack =
     bind_err (format_1f (total_percent report)) (\<lambda>t.
     bind_err (format_1f (statement_percent report)) (\<lambda>s.
     bind_err (format_1f (branch_percent report)) (\<lambda>b.
     bind_err (py_gt_zero (function_percent report)) (\<lambda>positive.
     bind_err (if positive then map_sum id Some (format_1f (function_percent report))
               else Inr None) (\<lambda>fo.
       Inr \<lparr> shown_total = t, shown_threshold = thr, shown_stack = stack,
             shown_statement = s, shown_branch = b, shown_function = fo \<rparr>)))))"

text \<open>\<open>f"     {file_path}: {file_pct:.1f}%"\<close> for each of \<open>report.uncovered_files[:5]\<close>.\<close>

fun top_files :: "(string \<times> json) list \<Rightarrow> py_error + (string \<times> double) list" where
  "top_files [] = Inr []"
| "top_files ((file_path, file_pct) # rest) =
     bind_err (format_1f file_pct) (\<lambda>x.
     bind_err (top_files rest) (\<lambda>ys. Inr ((file_path, x) # ys)))"

text \<open>The threshold check of \<open>validate_coverage\<close>, which stands after the \<open>try\<close> block:
  an exception here is not caught by the method. On a failure the gap is computed before
  anything is formatted.\<close>

definition check_threshold ::
  "coverage_report \<Rightarrow> double \<Rightarrow> string \<Rightarrow> py_error + bool \<times> coverage_message \<times> stderr_data option" where
  "check_threshold report thr stack =
     bind_err (py_ge (total_percent report) thr) (\<lambda>passes.
       if passes then
         bind_err (figures_of report thr stack) (\<lambda>figs.
           Inr (True, Coverage_passed figs, None))
       else
         bind_err (py_rsub thr (total_percent report)) (\<lambda>g.
         bind_err (figures_of report thr stack) (\<lambda>figs.
         bind_err (top_files (take 5 (uncovered_files report))) (\<lambda>shown.
           Inr (False, Coverage_failure figs g shown,
                Some \<lparr> coverage_percent = total_percent report, threshold = thr,
                       gap = g,
                       listed_files = take 10 (uncovered_files report) \<rparr>)))))"

text \<open>\<open>validate_coverage\<close> returns \<open>(passes, message)\<close>; the third component is what it
  printed to stderr.\<close>

definition validate_coverage ::
  "coverage_validator \<Rightarrow> world \<Rightarrow> string \<Rightarrow> py_error + bool \<times> coverage_message \<times> stderr_data option" where
  "validate_coverage self w report_path =
     (case detect_report_type report_path of
        None \<Rightarrow> Inr (True, Unknown_format (path_name report_path), None)
      | Some Coverage_py \<Rightarrow>
          (case parse_coverage_py_report self w report_path of
             Inl e \<Rightarrow> Inr (True, Failed_to_parse e, None)
           | Inr report \<Rightarrow> check_threshold report (backend_threshold self) ''Backend (Python)'')
      | Some Jest \<Rightarrow>
          (case parse_jest_report self w report_path of
             Inl e \<Rightarrow> Inr (True, Failed_to_parse e, None)
           | Inr report \<Rightarrow> check_threshold report (frontend_threshold self) ''Frontend (JS/TS)'')
      | Some Lcov \<Rightarrow> Inr (True, Lcov_not_supported, None))"

text \<open>\<open>CoverageValidator.run\<close>: the exit code, the message printed to stdout and the
  object printed to stderr. \<open>locate_report\<close> is its first statement: an absent
  \<open>report_path\<close> is replaced by the result of \<open>find_coverage_report\<close>.\<close>

definition locate_report :: "world \<Rightarrow> string option \<Rightarrow> string option" where
  "locate_report w report_path =
     (case report_path of None \<Rightarrow> find_coverage_report w | Some p \<Rightarrow> Some p)"

definition run_cv ::
  "coverage_validator \<Rightarrow> world \<Rightarrow> string option \<Rightarrow> py_error + int \<times> coverage_message \<times> stderr_data option" where
  "run_cv self w report_path =
     (case locate_report w report_path of
        None \<Rightarrow> Inr (0, No_report_found, None)
      | Some p \<Rightarrow>
          if \<not> path_exists w p then Inr (0, No_report_found, None)
          else
            bind_err (validate_coverage self w p) (\<lambda>(passed, message, err).
              Inr (if passed then 0 else 2, message, err)))"

section \<open>Python string operations used on tool output\<close>

text \<open>\<open>sub in s\<close>.\<close>

fun contains :: "string \<Rightarrow> string \<Rightarrow> bool" where
  "contains [] sub = (sub = [])"
| "contains (x # xs) sub = (startswith (x # xs) sub \<or> contains xs sub)"

text \<open>The index of the first occurrence of \<open>sub\<close>, if any.\<close>

fun find_index :: "string \<Rightarrow> string \<Rightarrow> nat option" where
  "find_index [] sub = (if sub = [] then Some 0 else None)"
| "find_index (x # xs) sub =
     (if startswith (x # xs) sub then Some 0 else map_option Suc (find_index xs sub))"

text \<open>\<open>s.find(sub, start)\<close> and \<open>s.rfind(sub)\<close> for a non-empty \<open>sub\<close>: \<open>-1\<close> when absent.\<close>

definition py_find :: "string \<Rightarrow> string \<Rightarrow> nat \<Rightarrow> int" where
  "py_find s sub start =
     (case find_index (drop start s) sub of None \<Rightarrow> -1 | Some i \<Rightarrow> int (start + i))"

definition py_rfind :: "string \<Rightarrow> string \<Rightarrow> int" where
  "py_rfind s sub =
     (case find_index (rev s) (rev sub) of
        None \<Rightarrow> -1
      | Some i \<Rightarrow> int (length s - i - length sub))"

text \<open>\<open>s[i:j]\<close>: a negative index counts from the end, and both are clipped to the string.\<close>

definition slice_index :: "string \<Rightarrow> int \<Rightarrow> nat" where
  "slice_index s k =
     (if k < 0 then nat (max 0 (k + int (length s))) else min (nat k) (length s))"

definition py_slice :: "string \<Rightarrow> int \<Rightarrow> int \<Rightarrow> string" where
  "py_slice s i j = take (slice_index s j - slice_index s i) (drop (slice_index s i) s)"

text \<open>\<open>s.split(sep)\<close> and \<open>s.split(sep, maxsplit)\<close> for a separator of one character.\<close>

fun split_char :: "char \<Rightarrow> string \<Rightarrow> string list" where
  "split_char sep [] = [[]]"
| "split_char sep (x # xs) =
     (if x = sep then [] # split_char sep xs
      else (case split_char sep xs of [] \<Rightarrow> [[x]] | h # t \<Rightarrow> (x # h) # t))"

fun split_max :: "char \<Rightarrow> nat \<Rightarrow> string \<Rightarrow> string list" where
  "split_max sep 0 s = [s]"
| "split_max sep (Suc n) [] = [[]]"
| "split_max sep (Suc n) (x # xs) =
     (if x = sep then [] # split_max sep n xs
      else (case split_max sep (Suc n) xs of [] \<Rightarrow> [[x]] | h # t \<Rightarrow> (x # h) # t))"

text \<open>\<open>s.strip()\<close> removes the characters for which \<open>str.isspace\<close> holds; in ASCII these
  are the codes 9 to 13, 28 to 31 and 32.\<close>

definition is_space :: "char \<Rightarrow> bool" where
  "is_space c = ((9 \<le> (of_char c :: nat) \<and> (of_char c :: nat) \<le> 13) \<or>
                 (28 \<le> (of_char c :: nat) \<and> (of_char c :: nat) \<le> 32))"

definition strip :: "string \<Rightarrow> string" where
  "strip s = rev (dropWhile is_space (rev (dropWhile is_space s)))"

text \<open>\<open>s.isdigit()\<close> on ASCII text: non-empty and every character a decimal digit.\<close>

definition is_digit :: "char \<Rightarrow> bool" where
  "is_digit c = (48 \<le> (of_char c :: nat) \<and> (of_char c :: nat) \<le> 57)"

definition isdigit :: "string \<Rightarrow> bool" where
  "isdigit s = (s \<noteq> [] \<and> list_all is_digit s)"

text \<open>\<open>int(s)\<close> on ASCII text: blanks (codes 9 to 13 and 32) around an optional sign and
  decimal digits, which single underscores may separate; \<open>None\<close> is \<open>ValueError\<close>.\<close>

definition is_blank :: "char \<Rightarrow> bool" where
  "is_blank c = ((9 \<le> (of_char c :: nat) \<and> (of_char c :: nat) \<le> 13) \<or> (of_char c :: nat) = 32)"

definition digits_ok :: "string \<Rightarrow> bool" where
  "digits_ok t =
     (t \<noteq> [] \<and> list_all (\<lambda>c. is_digit c \<or> c = CHR ''_'') t \<and>
      is_digit (hd t) \<and> is_digit (last t) \<and> \<not> contains t ''__'')"

definition digits_value :: "string \<Rightarrow> int" where
  "digits_value t =
     foldl (\<lambda>acc c. if c = CHR ''_'' then acc else 10 * acc + (int (of_char c) - 48)) 0 t"

definition unsigned_int :: "string \<Rightarrow> int option" where
  "unsigned_int t = (if digits_ok t then Some (digits_value t) else None)"

definition py_int :: "string \<Rightarrow> int option" where
  "py_int s =
     (case rev (dropWhile is_blank (rev (dropWhile is_blank s))) of
        [] \<Rightarrow> None
      | c # t \<Rightarrow>
          if c = CHR ''-'' then map_option uminus (unsigned_int t)
          else if c = CHR ''+'' then unsigned_int t
          else unsigned_int (c # t))"

text \<open>\<open>s.replace(old, new)\<close> for a non-empty \<open>old\<close>: occurrences are replaced from the
  left and do not overlap; \<open>skip\<close> counts the characters of a match still to be dropped.\<close>

fun replace_from :: "string \<Rightarrow> string \<Rightarrow> nat \<Rightarrow> string \<Rightarrow> string" where
  "replace_from old new skip [] = []"
| "replace_from old new (Suc skip) (x # xs) = replace_from old new skip xs"
| "replace_from old new 0 (x # xs) =
     (if startswith (x # xs) old then new @ replace_from old new (length old - 1) xs
      else x # replace_from old new 0 xs)"

definition replace :: "string \<Rightarrow> string \<Rightarrow> string \<Rightarrow> string" where
  "replace s old new = replace_from old new 0 s"

text \<open>\<open>Path.suffix\<close>: the last component from its last dot on, unless that dot is the
  first or the last character of the component.\<close>

definition path_suffix :: "string \<Rightarrow> string" where
  "path_suffix p =
     (let name = path_name p; i = py_rfind name ''.''
      in if 0 < i \<and> i < int (length name) - 1 then drop (nat i) name else [])"

text \<open>\<open>Path(s)\<close> on a POSIX system, as the text that \<open>str\<close> gives back: the root is \<open>//\<close>
  for exactly two leading slashes and \<open>/\<close> for any other number of them, empty components
  and \<open>.\<close> components are dropped, and a path without root and components is \<open>.\<close>.\<close>

definition path_root :: "string \<Rightarrow> string" where
  "path_root s =
     (if startswith s ''//'' \<and> \<not> startswith s ''///'' then ''//''
      else if startswith s ''/'' then ''/''
      else [])"

definition path_parts :: "string \<Rightarrow> string list" where
  "path_parts s = filter (\<lambda>x. x \<noteq> [] \<and> x \<noteq> ''.'') (split_char CHR ''/'' s)"

fun join_parts :: "string list \<Rightarrow> string" where
  "join_parts [] = []"
| "join_parts [x] = x"
| "join_parts (x # y # rest) = x @ ''/'' @ join_parts (y # rest)"

definition Path :: "string \<Rightarrow> string" where
  "Path s =
     (if path_root s = [] \<and> path_parts s = [] then ''.''
      else path_root s @ join_parts (path_parts s))"

text \<open>\<open>base / p\<close> for a path \<open>base\<close> and a string \<open>p\<close>: an absolute \<open>p\<close> replaces \<open>base\<close>.\<close>

definition path_join :: "string \<Rightarrow> string \<Rightarrow> string" where
  "path_join base p =
     Path (if startswith p ''/'' then p
           else if base = [] \<or> endswith base ''/'' then base @ p
           else base @ ''/'' @ p)"

section \<open>The script \<open>quality_gate.py\<close>\<close>

text \<open>A \<open>Violation\<close>. The dataclass does not check its field types: the JSON parsers
  store whatever value the tool's document holds, so these fields are Python values.\<close>

record violation =
  vfile :: json
  line :: json
  column :: json
  rule :: json
  message :: json
  severity :: string
  tool :: string

text \<open>The file-level violations the checks make up themselves: line and column 0.\<close>

definition file_violation :: "string \<Rightarrow> string \<Rightarrow> string \<Rightarrow> string \<Rightarrow> string \<Rightarrow> violation" where
  "file_violation file_path r m sev t =
     \<lparr> vfile = JStr file_path, line = JInt 0, column = JInt 0, rule = JStr r,
       message = JStr m, severity = sev, tool = t \<rparr>"

definition CACHE_TTL :: real where
  "CACHE_TTL = 1800"

text \<open>The state of a gate: the class-level \<open>_cache\<close> (keyed by \<open>str(file_path)\<close>) and
  \<open>self.violations\<close>. \<open>invoked\<close> is not a variable of the program: it lists the argument
  vectors passed to \<open>subprocess.run\<close> so far.\<close>

record gate =
  cache :: "string \<Rightarrow> (real \<times> violation list) option"
  violations :: "violation list"
  invoked :: "string list list"

definition LANGUAGE_MAP :: "(string \<times> string) list" where
  "LANGUAGE_MAP =
     [(''.py'', ''python''), (''.ts'', ''typescript''), (''.tsx'', ''typescript''),
      (''.js'', ''javascript''), (''.jsx'', ''javascript'')]"

definition detect_language :: "string \<Rightarrow> string option" where
  "detect_language file_path = map_of LANGUAGE_MAP (path_suffix file_path)"

definition get_file_hash :: "world \<Rightarrow> string \<Rightarrow> string" where
  "get_file_hash w file_path =
     (case read_file w file_path of None \<Rightarrow> [] | Some content \<Rightarrow> sha256_hexdigest w content)"

definition check_cache :: "world \<Rightarrow> gate \<Rightarrow> string \<Rightarrow> violation list option" where
  "check_cache w self file_path =
     (let file_hash = get_file_hash w file_path in
      if file_hash = [] then None
      else
        (case cache self file_path of
           Some (cached_time, cached_violations) \<Rightarrow>
             if time_at_lookup w - cached_time < CACHE_TTL then Some cached_violations else None
         | None \<Rightarrow> None))"

definition update_cache :: "world \<Rightarrow> gate \<Rightarrow> string \<Rightarrow> violation list \<Rightarrow> gate" where
  "update_cache w self file_path vs =
     self \<lparr> cache := (cache self)(file_path \<mapsto> (time_at_update w, vs)) \<rparr>"

text \<open>A \<open>for\<close> loop over a decoded document: a list gives its elements, a dict its keys,
  a string its characters; nothing else is iterable.\<close>

fun py_iter :: "json \<Rightarrow> py_error + json list" where
  "py_iter (JArr xs) = Inr xs"
| "py_iter (JObj kvs) = Inr (map (\<lambda>kv. JStr (fst kv)) kvs)"
| "py_iter (JStr s) = Inr (map (\<lambda>c. JStr [c]) s)"
| "py_iter _ = Inl TypeError"

text \<open>\<open>x.startswith(prefix)\<close>: only a \<open>str\<close> has the method.\<close>

fun py_startswith :: "json \<Rightarrow> string \<Rightarrow> py_error + bool" where
  "py_startswith (JStr s) pre = Inr (startswith s pre)"
| "py_startswith _ pre = Inl AttributeError"

text \<open>The \<open>Violation\<close> built from one element of ruff's JSON array; the arguments are
  evaluated in the order written.\<close>

definition ruff_violation :: "string \<Rightarrow> json \<Rightarrow> py_error + violation" where
  "ruff_violation file_path item =
     bind_err (py_get item ''filename'' (JStr file_path)) (\<lambda>fl.
     bind_err (py_get item ''location'' (JObj [])) (\<lambda>loc1.
     bind_err (py_get loc1 ''row'' (JInt 0)) (\<lambda>row.
     bind_err (py_get item ''location'' (JObj [])) (\<lambda>loc2.
     bind_err (py_get loc2 ''column'' (JInt 0)) (\<lambda>col.
     bind_err (py_get item ''code'' (JStr ''UNKNOWN'')) (\<lambda>r.
     bind_err (py_get item ''message'' (JStr [])) (\<lambda>m.
     bind_err (py_get item ''code'' (JStr [])) (\<lambda>code.
     bind_err (py_startswith code ''E'') (\<lambda>is_error.
       Inr \<lparr> vfile = fl, line = row, column = col, rule = r, message = m,
             severity = (if is_error then ''ERROR'' else ''WARNING''), tool = ''ruff'' \<rparr>)))))))))"

fun ruff_violations :: "string \<Rightarrow> json list \<Rightarrow> py_error + violation list" where
  "ruff_violations file_path [] = Inr []"
| "ruff_violations file_path (item # rest) =
     bind_err (ruff_violation file_path item) (\<lambda>v.
     bind_err (ruff_violations file_path rest) (\<lambda>vs. Inr (v # vs)))"

definition ruff_check_cmd :: "string \<Rightarrow> string list" where
  "ruff_check_cmd file_path = [''ruff'', ''check'', ''--output-format=json'', file_path]"

text \<open>The first \<open>try\<close> block of \<open>run_python_checks\<close> (ruff lint check): the violations
  it appends, or the exception that leaves it.\<close>

definition ruff_check_block :: "world \<Rightarrow> string \<Rightarrow> py_error + violation list" where
  "ruff_check_block w file_path =
     (case subprocess_run w (ruff_check_cmd file_path) of
        Completed returncode out err \<Rightarrow>
          if out \<noteq> [] then
            (case json_loads w out of
               None \<Rightarrow> Inr []
             | Some ruff_output \<Rightarrow>
                 bind_err (py_iter ruff_output) (ruff_violations file_path))
          else Inr []
      | TimeoutExpired \<Rightarrow>
          Inr [file_violation file_path ''TIMEOUT'' ''Ruff check timed out after 30 seconds''
                 ''ERROR'' ''ruff'']
      | FileNotFound \<Rightarrow>
          Inr [file_violation file_path ''MISSING_TOOL''
                 ''Ruff not installed. Install with: pip install ruff'' ''ERROR'' ''ruff'']
      | RunError e txt \<Rightarrow> Inl e)"

definition ruff_format_cmd :: "string \<Rightarrow> string list" where
  "ruff_format_cmd file_path = [''ruff'', ''format'', ''--check'', file_path]"

text \<open>The second \<open>try\<close> block (ruff format check).\<close>

definition ruff_format_block :: "world \<Rightarrow> string \<Rightarrow> py_error + violation list" where
  "ruff_format_block w file_path =
     (case subprocess_run w (ruff_format_cmd file_path) of
        Completed returncode out err \<Rightarrow>
          if returncode \<noteq> 0 then
            Inr [file_violation file_path ''FORMAT'' ''File is not formatted. Run: ruff format''
                   ''WARNING'' ''ruff'']
          else Inr []
      | TimeoutExpired \<Rightarrow> Inr []
      | FileNotFound \<Rightarrow> Inr []
      | RunError e txt \<Rightarrow> Inl e)"

text \<open>One line of mypy's output (\<open>file:line:col: error: message [code]\<close>): the violation
  it gives, if any. A \<open>ValueError\<close> of \<open>int\<close> skips the line.\<close>

definition mypy_line :: "string \<Rightarrow> string \<Rightarrow> violation list" where
  "mypy_line file_path row_text =
     (if contains row_text '':'' \<and> contains row_text ''error:'' then
        (let parts = split_max CHR '':'' 3 row_text in
         if length parts \<ge> 4 then
           (case py_int (parts ! 1) of
              None \<Rightarrow> []
            | Some line_num \<Rightarrow>
                (case (if isdigit (strip (parts ! 2)) then py_int (parts ! 2) else Some 0) of
                   None \<Rightarrow> []
                 | Some col_num \<Rightarrow>
                     (let message_part = strip (parts ! 3);
                          bracketed = (contains message_part ''['' \<and> contains message_part '']'');
                          code = (if bracketed
                                  then py_slice message_part (py_rfind message_part ''['' + 1)
                                         (py_rfind message_part '']'')
                                  else ''TYPE'');
                          message_part2 = (if bracketed
                                  then strip (py_slice message_part 0 (py_rfind message_part ''[''))
                                  else message_part)
                      in [\<lparr> vfile = JStr file_path, line = JInt line_num,
                             column = JInt col_num, rule = JStr code,
                             message = JStr (strip (replace message_part2 ''error:'' [])),
                             severity = ''ERROR'', tool = ''mypy'' \<rparr>])))
         else [])
      else [])"

definition mypy_cmd :: "string \<Rightarrow> string list" where
  "mypy_cmd file_path = [''mypy'', ''--show-column-numbers'', ''--show-error-codes'', file_path]"

text \<open>The third \<open>try\<close> block (mypy type check).\<close>

definition mypy_block :: "world \<Rightarrow> string \<Rightarrow> py_error + violation list" where
  "mypy_block w file_path =
     (case subprocess_run w (mypy_cmd file_path) of
        Completed returncode out err \<Rightarrow>
          if returncode \<noteq> 0 \<and> out \<noteq> [] then
            Inr (concat (map (mypy_line file_path) (split_char CHR 0x0A (strip out))))
          else Inr []
      | TimeoutExpired \<Rightarrow>
          Inr [file_violation file_path ''TIMEOUT'' ''mypy check timed out after 45 seconds''
                 ''WARNING'' ''mypy'']
      | FileNotFound \<Rightarrow> Inr []
      | RunError e txt \<Rightarrow> Inl e)"

text \<open>\<open>run_python_checks\<close>: the three blocks in order. The second component lists the
  commands run; an exception that leaves a block ends the method there.\<close>

definition run_python_checks :: "world \<Rightarrow> string \<Rightarrow> (py_error + violation list) \<times> string list list" where
  "run_python_checks w file_path =
     (case ruff_check_block w file_path of
        Inl e \<Rightarrow> (Inl e, [ruff_check_cmd file_path])
      | Inr a \<Rightarrow>
          (case ruff_format_block w file_path of
             Inl e \<Rightarrow> (Inl e, [ruff_check_cmd file_path, ruff_format_cmd file_path])
           | Inr b \<Rightarrow>
               (case mypy_block w file_path of
                  Inl e \<Rightarrow>
                    (Inl e, [ruff_check_cmd file_path, ruff_format_cmd file_path, mypy_cmd file_path])
                | Inr c \<Rightarrow>
                    (Inr (a @ b @ c),
                     [ruff_check_cmd file_path, ruff_format_cmd file_path, mypy_cmd file_path]))))"

text \<open>The \<open>Violation\<close> built from one message of one ESLint file result.\<close>

definition eslint_violation :: "string \<Rightarrow> json \<Rightarrow> json \<Rightarrow> py_error + violation" where
  "eslint_violation file_path file_result msg =
     bind_err (py_get file_result ''filePath'' (JStr file_path)) (\<lambda>fl.
     bind_err (py_get msg ''line'' (JInt 0)) (\<lambda>row.
     bind_err (py_get msg ''column'' (JInt 0)) (\<lambda>col.
     bind_err (py_get msg ''ruleId'' (JStr ''UNKNOWN'')) (\<lambda>r.
     bind_err (py_get msg ''message'' (JStr [])) (\<lambda>m.
     bind_err (py_get msg ''severity'' (JInt 1)) (\<lambda>sev.
       Inr \<lparr> vfile = fl, line = row, column = col, rule = r, message = m,
             severity = (if py_eq_int sev 2 then ''ERROR'' else ''WARNING''), tool = ''eslint'' \<rparr>))))))"

fun eslint_messages :: "string \<Rightarrow> json \<Rightarrow> json list \<Rightarrow> py_error + violation list" where
  "eslint_messages file_path file_result [] = Inr []"
| "eslint_messages file_path file_result (msg # rest) =
     bind_err (eslint_violation file_path file_result msg) (\<lambda>v.
     bind_err (eslint_messages file_path file_result rest) (\<lambda>vs. Inr (v # vs)))"

fun eslint_results :: "string \<Rightarrow> json list \<Rightarrow> py_error + violation list" where
  "eslint_results file_path [] = Inr []"
| "eslint_results file_path (file_result # rest) =
     bind_err (py_get file_result ''messages'' (JArr [])) (\<lambda>msgs.
     bind_err (py_iter msgs) (\<lambda>ms.
     bind_err (eslint_messages file_path file_result ms) (\<lambda>vs.
     bind_err (eslint_results file_path rest) (\<lambda>ws. Inr (vs @ ws)))))"

definition eslint_cmd :: "string \<Rightarrow> string list" where
  "eslint_cmd file_path = [''eslint'', ''--format=json'', file_path]"

text \<open>The first \<open>try\<close> block of \<open>run_typescript_checks\<close> (ESLint).\<close>

definition eslint_block :: "world \<Rightarrow> string \<Rightarrow> py_error + violation list" where
  "eslint_block w file_path =
     (case subprocess_run w (eslint_cmd file_path) of
        Completed returncode out err \<Rightarrow>
          if out \<noteq> [] then
            (case json_loads w out of
               None \<Rightarrow> Inr []
             | Some eslint_output \<Rightarrow>
                 bind_err (py_iter eslint_output) (eslint_results file_path))
          else Inr []
      | TimeoutExpired \<Rightarrow>
          Inr [file_violation file_path ''TIMEOUT'' ''ESLint check timed out after 30 seconds''
                 ''ERROR'' ''eslint'']
      | FileNotFound \<Rightarrow>
          Inr [file_violation file_path ''MISSING_TOOL''
                 ''ESLint not installed. Install with: npm install eslint'' ''ERROR'' ''eslint'']
      | RunError e txt \<Rightarrow> Inl e)"

text \<open>One line of the compiler's output (\<open>file(line,col): error TSxxxx: message\<close>): the
  violation it gives, if any. A failed unpacking or \<open>int\<close> (\<open>ValueError\<close>) skips the line.\<close>

definition tsc_line :: "string \<Rightarrow> violation list" where
  "tsc_line row_text =
     (if contains row_text ''('' \<and> contains row_text '')'' \<and> contains row_text ''error TS'' then
        (case split_max CHR ''('' 1 row_text of
           [file_part, rest] \<Rightarrow>
             (case split_max CHR '')'' 1 rest of
                [pos_part, msg_part] \<Rightarrow>
                  (case split_char CHR '','' pos_part of
                     [line_num, col_num] \<Rightarrow>
                       if contains msg_part ''error TS'' then
                         (let i = py_find msg_part ''TS'' 0;
                              j = py_find msg_part '':'' (nat i);
                              error_code = py_slice msg_part i j;
                              m = strip (py_slice msg_part (j + 1) (int (length msg_part)))
                          in (case py_int line_num of
                                None \<Rightarrow> []
                              | Some l \<Rightarrow>
                                  (case py_int col_num of
                                     None \<Rightarrow> []
                                   | Some c \<Rightarrow>
                                       [\<lparr> vfile = JStr (strip file_part), line = JInt l,
                                          column = JInt c, rule = JStr error_code,
                                          message = JStr m, severity = ''ERROR'',
                                          tool = ''tsc'' \<rparr>])))
                       else []
                   | _ \<Rightarrow> [])
              | _ \<Rightarrow> [])
         | _ \<Rightarrow> [])
      else [])"

definition tsc_cmd :: "string \<Rightarrow> string list" where
  "tsc_cmd file_path = [''tsc'', ''--noEmit'', ''--pretty'', ''false'', file_path]"

text \<open>The second \<open>try\<close> block (TypeScript compiler), entered for \<open>.ts\<close> and \<open>.tsx\<close> only.\<close>

definition tsc_block :: "world \<Rightarrow> string \<Rightarrow> py_error + violation list" where
  "tsc_block w file_path =
     (case subprocess_run w (tsc_cmd file_path) of
        Completed returncode out err \<Rightarrow>
          if returncode \<noteq> 0 \<and> out \<noteq> [] then
            Inr (concat (map tsc_line (split_char CHR 0x0A (strip out))))
          else Inr []
      | TimeoutExpired \<Rightarrow>
          Inr [file_violation file_path ''TIMEOUT'' ''TypeScript check timed out after 45 seconds''
                 ''WARNING'' ''tsc'']
      | FileNotFound \<Rightarrow> Inr []
      | RunError e txt \<Rightarrow> Inl e)"

definition run_typescript_checks :: "world \<Rightarrow> string \<Rightarrow> (py_error + violation list) \<times> string list list" where
  "run_typescript_checks w file_path =
     (case eslint_block w file_path of
        Inl e \<Rightarrow> (Inl e, [eslint_cmd file_path])
      | Inr a \<Rightarrow>
          if path_suffix file_path \<in> set [''.ts'', ''.tsx''] then
            (case tsc_block w file_path of
               Inl e \<Rightarrow> (Inl e, [eslint_cmd file_path, tsc_cmd file_path])
             | Inr b \<Rightarrow> (Inr (a @ b), [eslint_cmd file_path, tsc_cmd file_path]))
          else (Inr a, [eslint_cmd file_path]))"

text \<open>\<open>validate_file\<close>: the returned flag (or the exception) and the gate afterwards. The
  warning printed for a file that does not exist is not kept.\<close>

definition validate_file :: "world \<Rightarrow> string \<Rightarrow> gate \<Rightarrow> (py_error + bool) \<times> gate" where
  "validate_file w file_path self =
     (if \<not> path_exists w file_path then (Inr True, self)
      else
        (case check_cache w self file_path of
           Some cached_violations \<Rightarrow>
             (Inr (length cached_violations = 0),
              self \<lparr> violations := violations self @ cached_violations \<rparr>)
         | None \<Rightarrow>
             (case detect_language file_path of
                None \<Rightarrow> (Inr True, self)
              | Some language \<Rightarrow>
                  (case (if language = ''python'' then run_python_checks w file_path
                         else run_typescript_checks w file_path) of
                     (Inl e, cmds) \<Rightarrow> (Inl e, self \<lparr> invoked := invoked self @ cmds \<rparr>)
                   | (Inr file_violations, cmds) \<Rightarrow>
                       (Inr (length file_violations = 0),
                        (update_cache w self file_path file_violations)
                          \<lparr> violations := violations self @ file_violations,
                            invoked := invoked self @ cmds \<rparr>)))))"

text \<open>\<open>format_output\<close>: the summary for stdout (\<open>None\<close> is the line that reports success;
  otherwise the number of violations, of errors, of warnings, and the number of issues of
  each tool in the order of the tool names) and the violations serialised to stderr.\<close>

record failure_summary =
  n_violations :: nat
  n_errors :: nat
  n_warnings :: nat
  by_tool :: "(string \<times> nat) list"

definition format_output :: "gate \<Rightarrow> failure_summary option \<times> violation list" where
  "format_output self =
     (if violations self = [] then (None, [])
      else
        (Some \<lparr> n_violations = length (violations self),
                n_errors = length (filter (\<lambda>v. severity v = ''ERROR'') (violations self)),
                n_warnings = length (filter (\<lambda>v. severity v = ''WARNING'') (violations self)),
                by_tool =
                  map (\<lambda>t. (t, length (filter (\<lambda>v. tool v = t) (violations self))))
                    (sort (remdups (map tool (violations self)))) \<rparr>,
         violations self))"

text \<open>\<open>QualityGate.run\<close>: the exit code (or the exception), what is printed (nothing when
  an exception leaves \<open>validate_file\<close>), and the gate afterwards.\<close>

definition run ::
  "world \<Rightarrow> string \<Rightarrow> gate \<Rightarrow>
     (py_error + int) \<times> (failure_summary option \<times> violation list) option \<times> gate" where
  "run w file_path self =
     (case validate_file w file_path self of
        (Inl e, self2) \<Rightarrow> (Inl e, None, self2)
      | (Inr passed, self2) \<Rightarrow> (Inr (if passed then 0 else 2), Some (format_output self2), self2))"

text \<open>A Python value in a condition.\<close>

fun truthy :: "json \<Rightarrow> bool" where
  "truthy JNull = False"
| "truthy (JBool b) = b"
| "truthy (JInt i) = (i \<noteq> 0)"
| "truthy (JFloat d) = (xval_of d \<noteq> Val 0)"
| "truthy (JStr s) = (s \<noteq> [])"
| "truthy (JArr xs) = (xs \<noteq> [])"
| "truthy (JObj kvs) = (kvs \<noteq> [])"

text \<open>Standard input: closed (\<open>sys.stdin\<close> is \<open>None\<close>), or a stream, which is a terminal
  or not, and whose \<open>read()\<close> gives its text or raises (\<open>UnicodeDecodeError\<close> for bytes
  that are not text, \<open>OSError\<close>).\<close>

datatype stdin = Closed | Stream bool "py_error + string"

text \<open>\<open>json.load(sys.stdin)\<close> on a stream.\<close>

definition json_load :: "world \<Rightarrow> py_error + string \<Rightarrow> py_error + json" where
  "json_load w content =
     bind_err content (\<lambda>txt.
       case json_loads w txt of None \<Rightarrow> Inl JSONDecodeError | Some data \<Rightarrow> Inr data)"

text \<open>A new process: the class attribute \<open>_cache\<close> is empty, and so is \<open>self.violations\<close>
  of the gate \<open>main\<close> creates.\<close>

definition new_gate :: gate where
  "new_gate = \<lparr> cache = Map.empty, violations = [], invoked = [] \<rparr>"

text \<open>How a process of \<open>quality_gate.py\<close> ends: its exit code, the line \<open>main\<close> itself
  writes to stderr (the usage line, the warning that the request names no file, or the
  error line of its \<open>except Exception\<close>), the path handed to \<open>gate.run\<close>, what \<open>run\<close>
  printed, and the tools that were started.\<close>

datatype gate_notice = Usage | No_file_path | Quality_gate_error py_error

record gate_exit =
  final_code :: int
  notice :: "gate_notice option"
  target :: "string option"
  run_output :: "(failure_summary option \<times> violation list) option"
  tools_run :: "string list list"

text \<open>The exits of \<open>main\<close> that come before any target is chosen.\<close>

definition exit_before_run :: "int \<Rightarrow> gate_notice \<Rightarrow> gate_exit" where
  "exit_before_run code n =
     \<lparr> final_code = code, notice = Some n, target = None, run_output = None, tools_run = [] \<rparr>"

text \<open>\<open>gate.run(file_path)\<close> followed by \<open>sys.exit(exit_code)\<close> inside \<open>main\<close>'s \<open>try\<close>: an
  exception is caught there and the process exits 1.\<close>

definition run_and_exit :: "world \<Rightarrow> string \<Rightarrow> gate_exit" where
  "run_and_exit w file_path =
     (case run w file_path new_gate of
        (Inl e, out, self) \<Rightarrow>
          \<lparr> final_code = 1, notice = Some (Quality_gate_error e), target = Some file_path,
            run_output = out, tools_run = invoked self \<rparr>
      | (Inr code, out, self) \<Rightarrow>
          \<lparr> final_code = code, notice = None, target = Some file_path,
            run_output = out, tools_run = invoked self \<rparr>)"

text \<open>The two places where \<open>main\<close> turns to the command line.\<close>

definition cli_invocation :: "world \<Rightarrow> string list \<Rightarrow> gate_exit" where
  "cli_invocation w argv =
     (if length argv < 2 then exit_before_run 1 Usage
      else run_and_exit w (Path (argv ! 1)))"

text \<open>\<open>main\<close> of \<open>quality_gate.py\<close>. \<open>sys.stdin.isatty()\<close> raises \<open>AttributeError\<close> on a
  closed stdin; \<open>Path(x)\<close> raises \<open>TypeError\<close> for an \<open>x\<close> that is not a string; \<open>sys.exit\<close>
  is not caught by \<open>except Exception\<close>, every other exception is.\<close>

definition main :: "world \<Rightarrow> stdin \<Rightarrow> string list \<Rightarrow> gate_exit" where
  "main w inp argv =
     (case inp of
        Closed \<Rightarrow> exit_before_run 1 (Quality_gate_error AttributeError)
      | Stream isatty content \<Rightarrow>
          if \<not> isatty then
            (case json_load w content of
               Inr data \<Rightarrow>
                 (case bind_err (py_get data ''tool_input'' (JObj []))
                         (\<lambda>tool_input. py_get tool_input ''file_path'' JNull) of
                    Inl e \<Rightarrow> exit_before_run 1 (Quality_gate_error e)
                  | Inr file_path_str \<Rightarrow>
                      if truthy file_path_str then
                        (case file_path_str of
                           JStr p \<Rightarrow> run_and_exit w (Path p)
                         | _ \<Rightarrow> exit_before_run 1 (Quality_gate_error TypeError))
                      else exit_before_run 0 No_file_path)
             | Inl e \<Rightarrow>
                 if e = JSONDecodeError then cli_invocation w argv
                 else exit_before_run 1 (Quality_gate_error e))
          else cli_invocation w argv)"

section \<open>The script \<open>python_quality_gate.py\<close>\<close>

text \<open>The messages of this script are kept without the emoji that starts some of them.
  \<open>project_root\<close> is the constant \<open>PROJECT_ROOT\<close>, read from the environment at import.\<close>

definition RUFF_CHECK_CMD :: "string list" where
  "RUFF_CHECK_CMD = [''ruff'', ''check'', ''--format=json'']"

definition RUFF_FORMAT_CMD :: "string list" where
  "RUFF_FORMAT_CMD = [''ruff'', ''format'', ''--check'']"

definition MYPY_CMD :: "string list" where
  "MYPY_CMD = [''mypy'', ''--strict'', ''--no-error-summary'']"

text \<open>\<open>read_stdin_json\<close>: \<open>Inr None\<close> is \<open>sys.exit(0)\<close>. On a closed stdin \<open>json.load\<close>
  raises \<open>AttributeError\<close>; this and every other exception but \<open>JSONDecodeError\<close> leaves
  the function.\<close>

definition read_stdin_json :: "world \<Rightarrow> stdin \<Rightarrow> py_error + json option" where
  "read_stdin_json w inp =
     (case inp of
        Closed \<Rightarrow> Inl AttributeError
      | Stream isatty content \<Rightarrow>
          (case json_load w content of
             Inr data \<Rightarrow> Inr (Some data)
           | Inl e \<Rightarrow> if e = JSONDecodeError then Inr None else Inl e))"

definition get_file_path :: "world \<Rightarrow> string \<Rightarrow> json \<Rightarrow> py_error + string option" where
  "get_file_path w project_root data =
     bind_err (py_get data ''tool_input'' (JObj [])) (\<lambda>tool_input.
     bind_err (py_get tool_input ''file_path'' JNull) (\<lambda>file_path_str.
       if \<not> truthy file_path_str then Inr None
       else
         (case file_path_str of
            JStr p \<Rightarrow>
              if \<not> endswith p ''.py'' then Inr None
              else if \<not> path_exists w (path_join project_root p) then Inr None
              else Inr (Some (path_join project_root p))
          | _ \<Rightarrow> Inl AttributeError)))"

text \<open>\<open>run_command\<close> catches every exception.\<close>

definition run_command :: "world \<Rightarrow> string list \<Rightarrow> string \<Rightarrow> int \<times> string \<times> string" where
  "run_command w cmd file_path =
     (case subprocess_run w (cmd @ [file_path]) of
        Completed returncode out err \<Rightarrow> (returncode, out, err)
      | TimeoutExpired \<Rightarrow> (1, [], ''Command timed out after 30 seconds'')
      | FileNotFound \<Rightarrow> (1, [], ''Command not found: '' @ hd cmd)
      | RunError e txt \<Rightarrow> (1, [], ''Error running command: '' @ txt))"

definition lint_error :: "world \<Rightarrow> json \<Rightarrow> py_error + string" where
  "lint_error w finding =
     bind_err (py_get finding ''code'' (JStr ''???'')) (\<lambda>code.
     bind_err (py_get finding ''message'' (JStr ''Unknown error'')) (\<lambda>m.
     bind_err (py_get finding ''location'' (JObj [])) (\<lambda>location.
     bind_err (py_get location ''row'' (JStr ''?'')) (\<lambda>row.
     bind_err (py_get location ''column'' (JStr ''?'')) (\<lambda>col.
       Inr (''  Line '' @ py_str w row @ '':'' @ py_str w col @ '' - ['' @ py_str w code @ ''] ''
            @ py_str w m))))))"

fun lint_errors :: "world \<Rightarrow> json list \<Rightarrow> py_error + string list" where
  "lint_errors w [] = Inr []"
| "lint_errors w (finding # rest) =
     bind_err (lint_error w finding) (\<lambda>e.
     bind_err (lint_errors w rest) (\<lambda>es. Inr (e # es)))"

definition check_ruff_linting :: "world \<Rightarrow> string \<Rightarrow> py_error + string list" where
  "check_ruff_linting w file_path =
     (case run_command w RUFF_CHECK_CMD file_path of
        (returncode, out, err) \<Rightarrow>
          if returncode \<noteq> 0 \<and> out \<noteq> [] then
            (case json_loads w out of
               None \<Rightarrow> Inr [''  Failed to parse Ruff output: '' @ take 200 out]
             | Some findings \<Rightarrow>
                 if truthy findings then bind_err (py_iter findings) (lint_errors w)
                 else Inr [])
          else Inr [])"

definition check_ruff_formatting :: "world \<Rightarrow> string \<Rightarrow> string option" where
  "check_ruff_formatting w file_path =
     (case run_command w RUFF_FORMAT_CMD file_path of
        (returncode, out, err) \<Rightarrow>
          if returncode \<noteq> 0
          then Some ''  File is not formatted correctly. Run 'ruff format <file>' to fix.''
          else None)"

text \<open>\<open>str.lower\<close> on ASCII text.\<close>

definition lower :: "string \<Rightarrow> string" where
  "lower s =
     map (\<lambda>c. if 65 \<le> (of_char c :: nat) \<and> (of_char c :: nat) \<le> 90
               then char_of ((of_char c :: nat) + 32) else c) s"

definition check_mypy_types :: "world \<Rightarrow> string \<Rightarrow> string list" where
  "check_mypy_types w file_path =
     (case run_command w MYPY_CMD file_path of
        (returncode, out, err) \<Rightarrow>
          if returncode \<noteq> 0 then
            (let errors =
                   concat (map (\<lambda>row_text.
                       if contains (lower row_text) ''error:''
                       then [''  '' @ replace row_text (file_path @ '':'') ''Line '']
                       else [])
                     (split_char CHR 0x0A (strip (out @ err))))
             in if errors \<noteq> [] then errors
                else [''  mypy check failed (exit code '' @ py_str w (JInt returncode) @ '')''])
          else [])"

text \<open>\<open>run_quality_checks\<close> always ends the process: the exit code and the collected
  \<open>errors\<close>, or the exception that leaves it.\<close>

definition run_quality_checks :: "world \<Rightarrow> string \<Rightarrow> py_error + int \<times> string list" where
  "run_quality_checks w file_path =
     bind_err (check_ruff_linting w file_path) (\<lambda>lint_errors.
       (let errors1 = (if lint_errors \<noteq> [] then ''RUFF LINTING ERRORS:'' # lint_errors else []);
            errors2 = (case check_ruff_formatting w file_path of
                         Some format_error \<Rightarrow> errors1 @ [''RUFF FORMATTING ERROR:'', format_error]
                       | None \<Rightarrow> errors1);
            type_errors = check_mypy_types w file_path;
            errors3 = (if type_errors \<noteq> []
                       then errors2 @ ''MYPY TYPE CHECKING ERRORS:'' # type_errors else errors2)
        in Inr (if errors3 \<noteq> [] then 2 else 0, errors3)))"

text \<open>How a process of \<open>python_quality_gate.py\<close> ends: its exit code, the exception that
  nobody caught (the interpreter then prints a traceback and exits 1), the file that was
  checked, and the error lines of the failure message.\<close>

record python_gate_exit =
  exit_status :: int
  uncaught :: "py_error option"
  checked_file :: "string option"
  error_lines :: "string list"

text \<open>\<open>main\<close> of \<open>python_quality_gate.py\<close>.\<close>

definition main_python_gate :: "world \<Rightarrow> string \<Rightarrow> stdin \<Rightarrow> python_gate_exit" where
  "main_python_gate w project_root inp =
     (case read_stdin_json w inp of
        Inl e \<Rightarrow>
          \<lparr> exit_status = 1, uncaught = Some e, checked_file = None, error_lines = [] \<rparr>
      | Inr None \<Rightarrow>
          \<lparr> exit_status = 0, uncaught = None, checked_file = None, error_lines = [] \<rparr>
      | Inr (Some data) \<Rightarrow>
          (case get_file_path w project_root data of
             Inl e \<Rightarrow>
               \<lparr> exit_status = 1, uncaught = Some e, checked_file = None, error_lines = [] \<rparr>
           | Inr None \<Rightarrow>
               \<lparr> exit_status = 0, uncaught = None, checked_file = None, error_lines = [] \<rparr>
           | Inr (Some file_path) \<Rightarrow>
               (case run_quality_checks w file_path of
                  Inl e \<Rightarrow>
                    \<lparr> exit_status = 1, uncaught = Some e, checked_file = Some file_path,
                      error_lines = [] \<rparr>
                | Inr (code, errors) \<Rightarrow>
                    \<lparr> exit_status = code, uncaught = None, checked_file = Some file_path,
                      error_lines = errors \<rparr>)))"

section \<open>Notions used to state the properties\<close>

text \<open>A finite number that a float holds exactly: rounding leaves it unchanged.\<close>

definition is_double :: "real \<Rightarrow> bool" where
  "is_double t = (round_double t = Fin t)"

text \<open>A float as Python can produce it: its value, if finite, is held exactly.\<close>

fun is_float :: "double \<Rightarrow> bool" where
  "is_float (Fin x) = is_double x"
| "is_float d = True"

text \<open>A value that \<open>:.1f\<close> prints: a \<open>float\<close>, a \<open>bool\<close>, or an \<open>int\<close> that a float can
  hold.\<close>

definition fits_float :: "json \<Rightarrow> bool" where
  "fits_float v = (\<not> isl (format_1f v))"

text \<open>Every percentage that the summary of \<open>validate_coverage\<close> prints with \<open>:.1f\<close> can be
  printed: the total, statement, branch and function percentages and those of the first
  five uncovered files.\<close>

definition printable :: "coverage_report \<Rightarrow> bool" where
  "printable report =
     (fits_float (total_percent report) \<and> fits_float (statement_percent report) \<and>
      fits_float (branch_percent report) \<and> fits_float (function_percent report) \<and>
      list_all (\<lambda>e. fits_float (snd e)) (take 5 (uncovered_files report)))"

text \<open>\<open>v < thr\<close> and \<open>v >= thr\<close> are true, and \<open>d >= 0\<close> is true.\<close>

definition below :: "json \<Rightarrow> double \<Rightarrow> bool" where
  "below v thr = (py_lt v thr = Inr True)"

definition at_least :: "json \<Rightarrow> double \<Rightarrow> bool" where
  "at_least v thr = (py_ge v thr = Inr True)"

definition non_negative :: "double \<Rightarrow> bool" where
  "non_negative d = xle (Val 0) (xval_of d)"

text \<open>\<open>validate_coverage\<close> has parsed \<open>report\<close> from the file at \<open>report_path\<close>, and \<open>thr\<close>
  is the threshold of the report's origin.\<close>

definition parsed_as ::
  "coverage_validator \<Rightarrow> world \<Rightarrow> string \<Rightarrow> coverage_report \<Rightarrow> double \<Rightarrow> bool" where
  "parsed_as self w report_path report thr =
     ((detect_report_type report_path = Some Coverage_py \<and>
       parse_coverage_py_report self w report_path = Inr report \<and> thr = backend_threshold self) \<or>
      (detect_report_type report_path = Some Jest \<and>
       parse_jest_report self w report_path = Inr report \<and> thr = frontend_threshold self))"

text \<open>The messages that start with the warning sign.\<close>

definition is_warning :: "coverage_message \<Rightarrow> bool" where
  "is_warning m =
     (case m of
        No_report_found \<Rightarrow> True
      | Unknown_format n \<Rightarrow> True
      | Lcov_not_supported \<Rightarrow> True
      | Failed_to_parse e \<Rightarrow> True
      | Coverage_passed figs \<Rightarrow> False
      | Coverage_failure figs g shown \<Rightarrow> False)"



text \<open>The rule code of a ruff finding when it is a string, and whether it begins with the
  character \<open>E\<close>.\<close>

definition finding_code :: "json \<Rightarrow> string option" where
  "finding_code item =
     (case item of
        JObj kvs \<Rightarrow> (case map_of kvs ''code'' of Some (JStr c) \<Rightarrow> Some c | _ \<Rightarrow> None)
      | _ \<Rightarrow> None)"

definition begins_with_E :: "json \<Rightarrow> bool" where
  "begins_with_E item = (case finding_code item of Some (c # cs) \<Rightarrow> c = CHR ''E'' | _ \<Rightarrow> False)"

text \<open>The tool could not be started or did not finish in time.\<close>

definition unavailable :: "proc_result \<Rightarrow> bool" where
  "unavailable r = (r = TimeoutExpired \<or> r = FileNotFound)"

section \<open>Sample inputs\<close>

text \<open>A world in which nothing is there: no file exists or can be read, no text is a
  JSON document, no tool is installed. The digest is a stand-in that, like SHA-256, is
  never empty. The worlds of the examples below change it where they need to.\<close>

definition bare_world :: world where
  "bare_world =
     \<lparr> json_loads = (\<lambda>txt. None),
       path_exists = (\<lambda>p. False),
       read_file = (\<lambda>p. None),
       sha256_hexdigest = (\<lambda>content. ''sha256:'' @ content),
       subprocess_run = (\<lambda>cmd. FileNotFound),
       py_str = (\<lambda>v. case v of JStr s \<Rightarrow> s | _ \<Rightarrow> ''?''),
       time_at_lookup = 0,
       time_at_update = 0 \<rparr>"

definition default_validator :: coverage_validator where
  "default_validator = \<lparr> backend_threshold = Fin 80, frontend_threshold = Fin 70 \<rparr>"

text \<open>A \<open>coverage-summary.json\<close> whose totals are 90, 80, 70 and 100 per cent, with four
  files of which three are below 70 per cent of lines, two of them equally.\<close>

definition jest_document :: json where
  "jest_document =
     JObj [(''total'', JObj [(''lines'', JObj [(''pct'', JInt 100)]),
                             (''statements'', JObj [(''pct'', JInt 90)]),
                             (''functions'', JObj [(''pct'', JInt 70)]),
                             (''branches'', JObj [(''pct'', JInt 80)])]),
           (''src/a.ts'', JObj [(''lines'', JObj [(''pct'', JInt 50)])]),
           (''src/b.ts'', JObj [(''lines'', JObj [(''pct'', JInt 20)])]),
           (''src/c.ts'', JObj [(''lines'', JObj [(''pct'', JInt 50)])]),
           (''src/d.ts'', JObj [(''lines'', JObj [(''pct'', JInt 95)])])]"

definition jest_world :: world where
  "jest_world =
     bare_world \<lparr> json_loads := (\<lambda>txt. if txt = ''summary'' then Some jest_document else None),
                  path_exists := (\<lambda>p. p = ''coverage/coverage-summary.json''),
                  read_file := (\<lambda>p. if p = ''coverage/coverage-summary.json''
                                      then Some ''summary'' else None) \<rparr>"

text \<open>A \<open>coverage-summary.json\<close> whose totals are the floats that \<open>json\<close> reads from
  \<open>79.1\<close>, \<open>62.3\<close>, \<open>74.7\<close> and \<open>63.9\<close>, and no files.\<close>

definition rounding_document :: json where
  "rounding_document =
     JObj [(''total'',
            JObj [(''lines'', JObj [(''pct'', JFloat (Fin (8993125505905459 / 140737488355328)))]),
                  (''statements'', JObj [(''pct'', JFloat (Fin (2783083832226611 / 35184372088832)))]),
                  (''functions'', JObj [(''pct'', JFloat (Fin (5256545190071501 / 70368744177664)))]),
                  (''branches'', JObj [(''pct'', JFloat (Fin (4383972762268467 / 70368744177664)))])])]"

definition rounding_world :: world where
  "rounding_world =
     bare_world \<lparr> json_loads := (\<lambda>txt. if txt = ''summary'' then Some rounding_document else None),
                  path_exists := (\<lambda>p. p = ''coverage/coverage-summary.json''),
                  read_file := (\<lambda>p. if p = ''coverage/coverage-summary.json''
                                      then Some ''summary'' else None) \<rparr>"

text \<open>A \<open>coverage.json\<close> whose total is \<open>NaN\<close>, and one whose total is the float that
  \<open>json\<close> reads from \<open>12.3\<close>; neither lists a file.\<close>

definition nan_document :: json where
  "nan_document = JObj [(''totals'', JObj [(''percent_covered'', JFloat NaN)])]"

definition nan_world :: world where
  "nan_world =
     bare_world \<lparr> json_loads := (\<lambda>txt. if txt = ''report'' then Some nan_document else None),
                  path_exists := (\<lambda>p. p = ''coverage.json''),
                  read_file := (\<lambda>p. if p = ''coverage.json'' then Some ''report'' else None) \<rparr>"

definition low_document :: json where
  "low_document =
     JObj [(''totals'',
            JObj [(''percent_covered'', JFloat (Fin (3462142213541069 / 281474976710656)))])]"

definition low_world :: world where
  "low_world =
     bare_world \<lparr> json_loads := (\<lambda>txt. if txt = ''report'' then Some low_document else None),
                  path_exists := (\<lambda>p. p = ''coverage.json''),
                  read_file := (\<lambda>p. if p = ''coverage.json'' then Some ''report'' else None) \<rparr>"

text \<open>A \<open>coverage.json\<close> with 75 per cent in total and four files, three of them below 80
  per cent, two of them equally.\<close>

definition coverage_py_document :: json where
  "coverage_py_document =
     JObj [(''totals'', JObj [(''percent_covered'', JInt 75),
                              (''percent_covered_branches'', JInt 60)]),
           (''files'',
            JObj [(''app/a.py'', JObj [(''summary'', JObj [(''percent_covered'', JInt 90)])]),
                  (''app/b.py'', JObj [(''summary'', JObj [(''percent_covered'', JInt 40)])]),
                  (''app/c.py'', JObj [(''summary'', JObj [(''percent_covered'', JInt 10)])]),
                  (''app/d.py'', JObj [(''summary'', JObj [(''percent_covered'', JInt 40)])])])]"

definition coverage_py_world :: world where
  "coverage_py_world =
     bare_world \<lparr> json_loads := (\<lambda>txt. if txt = ''report'' then Some coverage_py_document else None),
                  path_exists := (\<lambda>p. p = ''coverage.json''),
                  read_file := (\<lambda>p. if p = ''coverage.json'' then Some ''report'' else None) \<rparr>"

text \<open>A world whose only report is an LCOV file, and one whose \<open>coverage.json\<close> is not
  JSON.\<close>

definition lcov_world :: world where
  "lcov_world = bare_world \<lparr> path_exists := (\<lambda>p. p = ''coverage/lcov.info'') \<rparr>"

definition broken_report_world :: world where
  "broken_report_world =
     bare_world \<lparr> path_exists := (\<lambda>p. p = ''coverage.json''),
                  read_file := (\<lambda>p. if p = ''coverage.json'' then Some ''{totals: '' else None) \<rparr>"

text \<open>Ruff's findings for \<open>src/app.py\<close>: one with an \<open>E\<close> code, one with another code, one
  with no code.\<close>

definition ruff_findings :: json where
  "ruff_findings =
     JArr [JObj [(''code'', JStr ''E501''), (''message'', JStr ''Line too long''),
                 (''filename'', JStr ''src/app.py''),
                 (''location'', JObj [(''row'', JInt 3), (''column'', JInt 89)])],
           JObj [(''code'', JStr ''F401''), (''message'', JStr ''os imported but unused''),
                 (''location'', JObj [(''row'', JInt 1), (''column'', JInt 8)])],
           JObj [(''message'', JStr ''unnamed'')]]"

text \<open>The world at a first validation of \<open>src/app.py\<close>: ruff reports the findings above,
  the format check and mypy are content; the clock reads 100 and 101 seconds.\<close>

definition lint_world :: world where
  "lint_world =
     bare_world \<lparr> json_loads := (\<lambda>txt. if txt = ''findings'' then Some ruff_findings else None),
                  path_exists := (\<lambda>p. p = ''src/app.py''),
                  read_file := (\<lambda>p. if p = ''src/app.py'' then Some ''import os'' else None),
                  subprocess_run := (\<lambda>cmd.
                    if cmd = ruff_check_cmd ''src/app.py'' then Completed 1 ''findings'' []
                    else if cmd = ruff_format_cmd ''src/app.py'' then Completed 0 [] []
                    else if cmd = mypy_cmd ''src/app.py'' then Completed 0 ''Success'' []
                    else FileNotFound),
                  time_at_lookup := 100,
                  time_at_update := 101 \<rparr>"

text \<open>The world one minute later, after the file has been rewritten: its content and
  digest differ, and every tool is content with it.\<close>

definition fixed_world :: world where
  "fixed_world =
     bare_world \<lparr> json_loads := (\<lambda>txt. if txt = ''[]'' then Some (JArr []) else None),
                  path_exists := (\<lambda>p. p = ''src/app.py''),
                  read_file := (\<lambda>p. if p = ''src/app.py'' then Some ''import sys'' else None),
                  subprocess_run := (\<lambda>cmd.
                    if cmd = ruff_check_cmd ''src/app.py'' then Completed 0 ''[]'' []
                    else if cmd = ruff_format_cmd ''src/app.py'' then Completed 0 [] []
                    else if cmd = mypy_cmd ''src/app.py'' then Completed 0 ''Success'' []
                    else FileNotFound),
                  time_at_lookup := 160,
                  time_at_update := 161 \<rparr>"



text \<open>A world with ruff but without mypy, and one in which every tool times out.\<close>

definition no_mypy_world :: world where
  "no_mypy_world =
     bare_world \<lparr> subprocess_run := (\<lambda>cmd.
                    if cmd = ruff_check_cmd ''src/app.py'' then Completed 0 [] []
                    else if cmd = ruff_format_cmd ''src/app.py'' then Completed 0 [] []
                    else FileNotFound) \<rparr>"

definition timeout_world :: world where
  "timeout_world = bare_world \<lparr> subprocess_run := (\<lambda>cmd. TimeoutExpired) \<rparr>"

text \<open>A world in which the hook sends the empty JSON object.\<close>

definition empty_request_world :: world where
  "empty_request_world =
     bare_world \<lparr> json_loads := (\<lambda>txt. if txt = ''{}'' then Some (JObj []) else None) \<rparr>"

section \<open>Properties\<close>

lemma bind_err_Inr_iff: "bind_err m f = Inr y \<longleftrightarrow> (\<exists>x. m = Inr x \<and> f x = Inr y)"
  by (cases m) (simp_all add: bind_err_def)

lemma bind_err_Inr [simp]: "bind_err (Inr x) f = f x"
  by (simp add: bind_err_def)

lemma bind_err_Inl [simp]: "bind_err (Inl e) f = Inl e"
  by (simp add: bind_err_def)

subsection \<open>Rounding\<close>

lemma round_half_even_of_int [simp]: "round_half_even (of_int k) = k"
  by (simp add: round_half_even_def)

lemma round_half_even_le: "r \<le> of_int k \<Longrightarrow> round_half_even r \<le> k"
  unfolding round_half_even_def by (auto simp: floor_le_iff)

lemma round_half_even_ge: "of_int k \<le> r \<Longrightarrow> k \<le> round_half_even r"
  unfolding round_half_even_def by (auto simp: le_floor_iff) linarith+

lemma round_half_even_nonneg: "0 \<le> r \<Longrightarrow> 0 \<le> round_half_even r"
  using round_half_even_ge [of 0 r] by simp

lemma ulp_shift_eq:
  assumes "2 ^ (52 + k) \<le> u" "u < 2 ^ (53 + k)"
  shows "ulp_shift u = k"
proof -
  have "(2::int) ^ (52 + k) \<le> \<lfloor>u\<rfloor>" using assms(1) by (simp add: le_floor_iff)
  moreover have "\<lfloor>u\<rfloor> < 2 ^ (53 + k)" using assms(2) by (simp add: floor_less_iff)
  ultimately have "bitlen \<lfloor>u\<rfloor> = 53 + int k"
    by (intro antisym) (auto simp: bitlen_le_iff_power bitlen_ge_iff_power nat_add_distrib)
  then show ?thesis by (simp add: ulp_shift_def)
qed

lemma ulp_shift_small:
  assumes "u < 2 ^ 53"
  shows "ulp_shift u = 0"
proof -
  have "\<lfloor>u\<rfloor> < 2 ^ 53" using assms by (simp add: floor_less_iff)
  then have "bitlen \<lfloor>u\<rfloor> \<le> 53" by (simp add: bitlen_le_iff_power)
  then show ?thesis by (simp add: ulp_shift_def)
qed

lemma units_pos: "0 < units"
  by (simp add: units_def)

lemma units_simps [simp]:
  "0 < units" "0 \<le> units" "units \<noteq> 0" "\<not> units \<le> 0" "\<not> units < 0"
  using units_pos by linarith+

lemma units_cancel [simp]:
  "\<bar>units\<bar> = units" "t * units \<le> 0 \<longleftrightarrow> t \<le> 0" "0 \<le> t * units \<longleftrightarrow> 0 \<le> t"
  "a * units \<le> b * units \<longleftrightarrow> a \<le> b" "0 \<le> a / units \<longleftrightarrow> 0 \<le> a"
  by (auto simp add: mult_le_0_iff zero_le_mult_iff zero_le_divide_iff)

text \<open>Rounding with the exponent supplied: a positive \<open>x\<close> whose multiple \<open>x * 2 ^ j\<close>
  has 53 bits is rounded to a multiple of \<open>1 / 2 ^ j\<close>.\<close>

lemma round_double_normal:
  assumes "0 < x" "j \<le> 1074" "2 ^ 52 \<le> x * 2 ^ j" "x * 2 ^ j < 2 ^ 53"
  shows "round_double x = Fin (of_int (round_half_even (x * 2 ^ j)) / 2 ^ j)"
proof -
  define k where "k = 1074 - j"
  have kj: "k + j = 1074" using assms(2) by (simp add: k_def)
  have un: "units = 2 ^ j * 2 ^ k"
    unfolding units_def kj [symmetric] by (simp add: power_add)
  have u: "\<bar>x\<bar> * units = (x * 2 ^ j) * 2 ^ k"
    using assms(1) by (simp add: un)
  have s: "ulp_shift (\<bar>x\<bar> * units) = k"
  proof (rule ulp_shift_eq)
    show "2 ^ (52 + k) \<le> \<bar>x\<bar> * units"
      unfolding u power_add using assms(3) by (simp add: mult_right_mono)
    show "\<bar>x\<bar> * units < 2 ^ (53 + k)"
      unfolding u power_add using assms(4) by (simp add: mult_strict_right_mono)
  qed
  define r where "r = round_half_even (x * 2 ^ j)"
  have r: "2 ^ 52 \<le> r" "r \<le> 2 ^ 53"
    using round_half_even_ge [of "2 ^ 52" "x * 2 ^ j"] round_half_even_le [of "x * 2 ^ j" "2 ^ 53"]
      assms(3,4) by (simp_all add: r_def)
  have "round_units (\<bar>x\<bar> * units) = of_int r * 2 ^ k"
    unfolding round_units_def s unfolding u by (simp add: r_def)
  then have m: "round_units (\<bar>x\<bar> * units) / units = of_int r / 2 ^ j"
    by (simp add: un)
  have "of_int r / 2 ^ j \<le> (2::real) ^ 53"
  proof -
    have "of_int r / 2 ^ j \<le> (of_int r :: real)"
      using r(1) by (simp add: field_simps mult_le_cancel_left1) 
    also have "\<dots> \<le> 2 ^ 53" using r(2) by (metis of_int_le_iff of_int_numeral of_int_power)
    finally show ?thesis .
  qed
  moreover have "(2::real) ^ 53 < overflow_threshold" by (simp add: overflow_threshold_def)
  moreover have "0 < of_int r / (2::real) ^ j" using r(1) by simp
  ultimately show ?thesis
    using assms(1) unfolding round_double_def m Let_def r_def [symmetric] by auto
qed

lemma bitlen_mono: "a \<le> b \<Longrightarrow> bitlen a \<le> bitlen b"
proof (cases "0 < b")
  case True
  assume "a \<le> b"
  with bitlen_bounds [OF True] have "a < 2 ^ nat (bitlen b)" by simp
  then show ?thesis by (simp add: bitlen_le_iff_power bitlen_nonneg)
next
  case False
  assume "a \<le> b"
  with False have "bitlen a = 0" by (simp add: bitlen_eq_zero_iff)
  then show ?thesis by (simp add: bitlen_nonneg)
qed

lemma ulp_shift_mono: "u \<le> v \<Longrightarrow> ulp_shift u \<le> ulp_shift v"
  unfolding ulp_shift_def by (intro nat_mono diff_right_mono bitlen_mono floor_mono)

lemma round_units_nonneg: "0 \<le> u \<Longrightarrow> 0 \<le> round_units u"
  unfolding round_units_def by (simp add: round_half_even_nonneg)

text \<open>Rounding does not cross a value that a float holds exactly, from below or from
  above.\<close>

lemma round_units_zero [simp]: "round_units 0 = 0"
  using round_half_even_of_int [of 0] by (simp add: round_units_def)

lemma round_units_le:
  assumes "u \<le> s" "round_units s = s"
  shows "round_units u \<le> s"
proof -
  define k where "k = ulp_shift u"
  define n where "n = round_half_even (s / 2 ^ ulp_shift s)"
  have "k \<le> ulp_shift s" unfolding k_def using assms(1) by (rule ulp_shift_mono)
  then obtain d where K: "ulp_shift s = k + d" by (auto simp: le_iff_add)
  define N where "N = n * 2 ^ d"
  have "s = round_units s" using assms(2) by simp
  also have "\<dots> = of_int n * 2 ^ (k + d)" unfolding round_units_def n_def K ..
  also have "\<dots> = of_int N * 2 ^ k" by (simp add: N_def power_add mult_ac)
  finally have s: "s = of_int N * 2 ^ k" .
  have "u / 2 ^ k \<le> of_int N"
    using assms(1) by (subst (asm) s) (simp add: field_simps)
  then have "round_half_even (u / 2 ^ k) \<le> N"
    by (rule round_half_even_le)
  then have "(of_int (round_half_even (u / 2 ^ k)) :: real) \<le> of_int N"
    by (simp only: of_int_le_iff)
  then have "of_int (round_half_even (u / 2 ^ k)) * 2 ^ k \<le> (of_int N * 2 ^ k :: real)"
    by (intro mult_right_mono) simp_all
  then show ?thesis by (simp add: round_units_def k_def [symmetric] s [symmetric])
qed

lemma round_units_ge:
  assumes "0 \<le> s" "s \<le> u" "round_units s = s"
  shows "s \<le> round_units u"
proof -
  define k where "k = ulp_shift s"
  define K where "K = ulp_shift u"
  define n where "n = round_half_even (s / 2 ^ k)"
  have kK: "k \<le> K" unfolding k_def K_def using assms(2) by (rule ulp_shift_mono)
  have s: "s = of_int n * 2 ^ k" using assms(3) by (simp add: round_units_def k_def n_def)
  show ?thesis
  proof (cases "k = K")
    case True
    have "of_int n \<le> u / 2 ^ K" using assms(2) by (simp add: s True field_simps)
    then have "n \<le> round_half_even (u / 2 ^ K)" by (rule round_half_even_ge)
    then have "(of_int n * 2 ^ K :: real) \<le> of_int (round_half_even (u / 2 ^ K)) * 2 ^ K"
      by (intro mult_right_mono) simp_all
    then show ?thesis by (simp add: round_units_def K_def [symmetric] s True)
  next
    case False
    with kK have lt: "k < K" by simp
    then have K0: "0 < K" by simp
    then have b: "bitlen \<lfloor>u\<rfloor> = 53 + int K" by (simp add: K_def ulp_shift_def)
    then have "0 < \<lfloor>u\<rfloor>" by (smt (verit) bitlen_eq_zero_iff of_nat_0_le_iff)
    from bitlen_bounds [OF this] have "(2::int) ^ (52 + K) \<le> \<lfloor>u\<rfloor>"
      by (simp add: b nat_add_distrib)
    then have "(2::real) ^ (52 + K) \<le> u" by (simp add: le_floor_iff)
    then have "of_int (2 ^ 52) \<le> u / 2 ^ K" by (simp add: field_simps power_add)
    then have "2 ^ 52 \<le> round_half_even (u / 2 ^ K)" by (rule round_half_even_ge)
    then have "(of_int (2 ^ 52) * 2 ^ K :: real) \<le> of_int (round_half_even (u / 2 ^ K)) * 2 ^ K"
      by (intro mult_right_mono) (simp_all only: of_int_le_iff, simp)
    then have big: "(2::real) ^ (52 + K) \<le> round_units u"
      by (simp add: round_units_def K_def [symmetric] power_add)
    have "bitlen \<lfloor>s\<rfloor> \<le> 53 + int k" by (simp add: k_def ulp_shift_def)
    then have "\<lfloor>s\<rfloor> < 2 ^ (53 + k)" by (simp add: bitlen_le_iff_power nat_add_distrib)
    then have "s < 2 ^ (53 + k)" by (simp add: floor_less_iff)
    also have "(2::real) ^ (53 + k) \<le> 2 ^ (52 + K)" using lt by (intro power_increasing) simp_all
    finally show ?thesis using big by simp
  qed
qed

lemma round_double_Fin_units:
  assumes "round_double x = Fin y"
  shows "\<bar>y\<bar> * units = round_units (\<bar>x\<bar> * units)" "0 \<le> x \<Longrightarrow> 0 \<le> y" "x \<le> 0 \<Longrightarrow> y \<le> 0"
proof -
  have n: "0 \<le> round_units (\<bar>x\<bar> * units)"
    by (rule round_units_nonneg) (simp add: less_imp_le)
  from assms n show "\<bar>y\<bar> * units = round_units (\<bar>x\<bar> * units)"
    by (auto simp: round_double_def Let_def split: if_splits)
  from assms n show "0 \<le> x \<Longrightarrow> 0 \<le> y"
    by (auto simp: round_double_def Let_def split: if_splits)
  from assms n show "x \<le> 0 \<Longrightarrow> y \<le> 0"
    by (auto simp: round_double_def Let_def split: if_splits)
qed

lemma is_double_units: "is_double t \<Longrightarrow> round_units (\<bar>t\<bar> * units) = \<bar>t\<bar> * units"
  using round_double_Fin_units(1) [of t t] by (simp add: is_double_def)

lemma round_double_mono:
  assumes "is_double t" "x \<le> t" "round_double x = Fin y"
  shows "y \<le> t"
proof (cases "0 \<le> x")
  case True
  then have t: "0 \<le> t" using assms(2) by simp
  from round_double_Fin_units [OF assms(3)] True
  have y: "0 \<le> y" "y * units = round_units (x * units)" by simp_all
  have "round_units (x * units) \<le> t * units"
    using round_units_le [of "x * units" "t * units"] is_double_units [OF assms(1)] t assms(2)
    by simp
  then have "y * units \<le> t * units" using y by simp
  then show ?thesis by (simp add: mult_le_cancel_right)
next
  case False
  then have x: "x < 0" by simp
  from round_double_Fin_units [OF assms(3)] x
  have y: "y \<le> 0" "- y * units = round_units (- x * units)" by simp_all
  show ?thesis
  proof (cases "0 \<le> t")
    case True
    with y show ?thesis by simp
  next
    case False
    then have "- t * units \<le> round_units (- x * units)"
      using round_units_ge [of "- t * units" "- x * units"] is_double_units [OF assms(1)] assms(2)
      by simp
    then have "- t * units \<le> - y * units" using y by simp
    then show ?thesis by (simp add: mult_le_cancel_right)
  qed
qed

text \<open>A number of fewer than 54 bits, scaled by a power of two within the range of the
  exponent, is held exactly; so is every integer below \<open>2 ^ 53\<close> in magnitude.\<close>

lemma round_units_exact:
  assumes "0 \<le> n" "n < 2 ^ 53"
  shows "round_units (of_int n * 2 ^ e) = of_int n * 2 ^ e"
proof -
  define k where "k = ulp_shift (of_int n * 2 ^ e)"
  have fl: "\<lfloor>(of_int n * 2 ^ e :: real)\<rfloor> = n * 2 ^ e"
    by (metis floor_of_int of_int_mult of_int_numeral of_int_power)
  have "n * 2 ^ e < 2 ^ 53 * 2 ^ e" using assms(2) by simp
  then have "n * 2 ^ e < 2 ^ (53 + e)" by (simp add: power_add)
  then have "bitlen (n * 2 ^ e) \<le> 53 + int e" by (simp add: bitlen_le_iff_power nat_add_distrib)
  then have "k \<le> e" by (simp add: k_def ulp_shift_def fl)
  then obtain d where e: "e = k + d" by (auto simp: le_iff_add)
  have "(of_int n * 2 ^ e / 2 ^ k :: real) = of_int (n * 2 ^ d)"
    by (simp add: e power_add)
  then have "round_half_even (of_int n * 2 ^ e / 2 ^ k) = n * 2 ^ d"
    by (simp only: round_half_even_of_int)
  then show ?thesis
    unfolding round_units_def k_def [symmetric] by (simp add: e power_add)
qed

lemma is_double_dyadic:
  assumes "\<bar>i\<bar> < 2 ^ 53" "j \<le> 1074"
  shows "is_double (of_int i / 2 ^ j)"
proof -
  define e where "e = 1074 - j"
  have un: "units = 2 ^ j * 2 ^ e"
    unfolding units_def e_def using assms(2) by (simp flip: power_add)
  have "\<bar>of_int i / 2 ^ j\<bar> * units = of_int \<bar>i\<bar> * 2 ^ e"
    by (simp add: un abs_divide)
  then have "round_units (\<bar>of_int i / 2 ^ j\<bar> * units) = of_int \<bar>i\<bar> * 2 ^ e"
    using round_units_exact [of "\<bar>i\<bar>" e] assms(1) by simp
  then have m: "round_units (\<bar>of_int i / 2 ^ j\<bar> * units) / units = \<bar>of_int i / 2 ^ j\<bar>"
    by (simp add: un abs_divide)
  have "\<bar>of_int i / 2 ^ j\<bar> \<le> \<bar>(of_int i :: real)\<bar>"
    by (simp add: abs_divide field_simps mult_le_cancel_left1)
  also have "\<dots> < 2 ^ 53" using assms(1) by (metis of_int_abs of_int_less_iff of_int_numeral of_int_power)
  also have "(2::real) ^ 53 < overflow_threshold" by (simp add: overflow_threshold_def)
  finally have o: "\<not> overflow_threshold \<le> \<bar>of_int i / 2 ^ j\<bar>" by simp
  define x :: real where "x = of_int i / 2 ^ j"
  from o m have "\<not> overflow_threshold \<le> \<bar>x\<bar>" "round_units (\<bar>x\<bar> * units) / units = \<bar>x\<bar>"
    by (simp_all only: x_def [symmetric] not_False_eq_True)
  then have "round_double x = Fin x"
    unfolding round_double_def Let_def by (auto simp: abs_if)
  then show ?thesis by (simp add: is_double_def x_def)
qed

lemma round_double_dyadic:
  "\<bar>i\<bar> < 2 ^ 53 \<Longrightarrow> j \<le> 1074 \<Longrightarrow> round_double (of_int i / 2 ^ j) = Fin (of_int i / 2 ^ j)"
  using is_double_dyadic by (simp add: is_double_def)

lemma round_double_of_int:
  "\<bar>i\<bar> < 2 ^ 53 \<Longrightarrow> round_double (of_int i) = Fin (of_int i)"
  using round_double_dyadic [of i 0] by simp

lemma round_double_numeral:
  "(numeral n :: int) < 2 ^ 53 \<Longrightarrow> round_double (numeral n) = Fin (numeral n)"
  using round_double_of_int [of "numeral n"] by simp

lemma round_double_zero [simp]: "round_double 0 = Fin 0"
  using round_double_of_int [of 0] by simp

lemma round_double_one [simp]: "round_double 1 = Fin 1"
  using round_double_of_int [of 1] by simp

text \<open>The float nearest to a number that is not negative is not negative.\<close>

lemma non_negative_round_double: "0 \<le> x \<Longrightarrow> non_negative (round_double x)"
proof -
  assume x: "0 \<le> x"
  have "0 \<le> round_units (\<bar>x\<bar> * units)"
    by (rule round_units_nonneg) simp
  then have "0 \<le> round_units (\<bar>x\<bar> * units) / units"
    by simp
  then show ?thesis using x
    by (auto simp: non_negative_def xle_def round_double_def Let_def not_less)
qed

subsection \<open>Coverage reports\<close>

lemma to_float_numeral:
  "(numeral n :: int) < 2 ^ 53 \<Longrightarrow> to_float (numeral n) = Inr (Fin (numeral n))"
  by (simp add: to_float_def round_double_numeral)

lemma jest_world_report:
  "parse_jest_report default_validator jest_world ''coverage/coverage-summary.json'' =
     Inr \<lparr> total_percent = JFloat (Fin 85), statement_percent = JInt 90, branch_percent = JInt 80,
           function_percent = JInt 70, line_percent = JInt 100,
           uncovered_files = [(''src/b.ts'', JInt 20), (''src/a.ts'', JInt 50),
                              (''src/c.ts'', JInt 50)] \<rparr>"
  by (simp add: parse_jest_report_def load_report_def jest_world_def bare_world_def
      jest_document_def jest_pct_def default_validator_def sort_by_percent_def
      jest_total_def py_add_def py_div4_def py_lt_def percent_key_def round_double_numeral)

text \<open>The four roundings of the report whose totals are 79.1, 62.3, 74.7 and 63.9.\<close>

lemma rounding_sum2:
  "round_double (2783083832226611 / 35184372088832 + 4383972762268467 / 70368744177664)
     = Fin (1243767553340211 / 8796093022208)"
  by (subst round_double_normal [where j = 45]) (simp_all add: round_half_even_def)

lemma rounding_sum3:
  "round_double (1243767553340211 / 8796093022208 + 5256545190071501 / 70368744177664)
     = Fin (3801671404198297 / 17592186044416)"
  by (subst round_double_normal [where j = 45]) (simp_all add: round_half_even_def)

lemma rounding_sum4:
  "round_double (3801671404198297 / 17592186044416 + 8993125505905459 / 140737488355328)
     = Fin (4925812092436479 / 17592186044416)"
  by (subst round_double_normal [where j = 44]) (simp_all add: round_half_even_def)

lemma rounding_quotient:
  "round_double (4925812092436479 / 17592186044416 / 4)
     = Fin (4925812092436479 / 70368744177664)"
  by (subst round_double_normal [where j = 46]) (simp_all add: round_half_even_def)

lemma rounding_total:
  "jest_total (JFloat (Fin (2783083832226611 / 35184372088832)))
              (JFloat (Fin (4383972762268467 / 70368744177664)))
              (JFloat (Fin (5256545190071501 / 70368744177664)))
              (JFloat (Fin (8993125505905459 / 140737488355328)))
   = Inr (JFloat (Fin (4925812092436479 / 70368744177664)))"
  unfolding jest_total_def py_add_def py_div4_def
  by (simp only: as_number.simps prod.case option.case number.case bind_err_Inr double_add.simps
        double_quarter.simps rounding_sum2 rounding_sum3 rounding_sum4 rounding_quotient)

lemma rounding_world_report:
  "parse_jest_report default_validator rounding_world ''coverage/coverage-summary.json'' =
     Inr \<lparr> total_percent = JFloat (Fin (4925812092436479 / 70368744177664)),
           statement_percent = JFloat (Fin (2783083832226611 / 35184372088832)),
           branch_percent = JFloat (Fin (4383972762268467 / 70368744177664)),
           function_percent = JFloat (Fin (5256545190071501 / 70368744177664)),
           line_percent = JFloat (Fin (8993125505905459 / 140737488355328)),
           uncovered_files = [] \<rparr>"
  by (simp add: parse_jest_report_def load_report_def rounding_world_def bare_world_def
      rounding_document_def jest_pct_def default_validator_def sort_by_percent_def
      rounding_total)




lemma coverage_py_world_report:
  "parse_coverage_py_report default_validator coverage_py_world ''coverage.json'' =
     Inr \<lparr> total_percent = JInt 75, statement_percent = JInt 75, branch_percent = JInt 60,
           function_percent = JFloat (Fin 0), line_percent = JInt 75,
           uncovered_files = [(''app/c.py'', JInt 10), (''app/b.py'', JInt 40),
                              (''app/d.py'', JInt 40)] \<rparr>"
  by (simp add: parse_coverage_py_report_def load_report_def coverage_py_world_def bare_world_def
      coverage_py_document_def coverage_py_file_percent_def default_validator_def
      sort_by_percent_def py_lt_def percent_key_def)

lemma detect_coverage_json: "detect_report_type ''coverage.json'' = Some Coverage_py"
  by (simp add: detect_report_type_def path_name_def)

lemma detect_coverage_summary_json:
  "detect_report_type ''coverage/coverage-summary.json'' = Some Jest"
  by (simp add: detect_report_type_def path_name_def)

lemma detect_lcov_info: "detect_report_type ''coverage/lcov.info'' = Some Lcov"
  by (simp add: detect_report_type_def path_name_def endswith_def)

text \<open>What can be printed is a number, and can be compared and subtracted.\<close>

lemma fits_float_format: "fits_float v \<Longrightarrow> \<exists>d. format_1f v = Inr d"
  by (cases "format_1f v") (simp_all add: fits_float_def)

lemma fits_float_number: "fits_float v \<Longrightarrow> \<exists>n. as_number v = Some n"
  by (cases v) (simp_all add: fits_float_def format_1f_def)

lemma fits_float_gt_zero: "fits_float v \<Longrightarrow> \<exists>b. py_gt_zero v = Inr b"
  using fits_float_number [of v] by (auto simp: py_gt_zero_def)

lemma fits_float_ge: "fits_float v \<Longrightarrow> py_ge v thr = Inr (at_least v thr)"
  using fits_float_number [of v] by (auto simp: py_ge_def at_least_def)

lemma fits_float_rsub: "fits_float v \<Longrightarrow> \<exists>g. py_rsub thr v = Inr g"
proof -
  assume f: "fits_float v"
  then obtain n where n: "as_number v = Some n" using fits_float_number by blast
  show ?thesis
  proof (cases n)
    case (PyInt i)
    with f n obtain d where "to_float i = Inr d"
      by (cases v; cases "to_float i") (auto simp: fits_float_def format_1f_def split: if_splits)
    with n PyInt show ?thesis by (simp add: py_rsub_def)
  next
    case (PyFloat e)
    with n show ?thesis by (simp add: py_rsub_def)
  qed
qed

lemma top_files_printable:
  "list_all (\<lambda>e. fits_float (snd e)) xs \<Longrightarrow> \<exists>shown. top_files xs = Inr shown"
proof (induction xs)
  case Nil
  then show ?case by simp
next
  case (Cons e xs)
  obtain fp pc where e: "e = (fp, pc)" by (cases e)
  from Cons obtain shown where "top_files xs = Inr shown" by auto
  moreover from Cons.prems obtain d where "format_1f pc = Inr d"
    using fits_float_format [of pc] by (auto simp: e)
  ultimately show ?case by (simp add: e)
qed

lemma figures_of_printable:
  assumes "fits_float (total_percent report)" "fits_float (statement_percent report)"
    "fits_float (branch_percent report)" "fits_float (function_percent report)"
  shows "\<exists>figs. figures_of report thr stack = Inr figs"
proof -
  from assms obtain t s b f p where
    "format_1f (total_percent report) = Inr t" "format_1f (statement_percent report) = Inr s"
    "format_1f (branch_percent report) = Inr b" "format_1f (function_percent report) = Inr f"
    "py_gt_zero (function_percent report) = Inr p"
    using fits_float_format fits_float_gt_zero by metis
  then show ?thesis by (simp add: figures_of_def)
qed

text \<open>The float of an \<open>int\<close> is not on the other side of a float from it, and is not \<open>-0.0\<close>
  when the \<open>int\<close> is below a negative float.\<close>

lemma round_double_NegZero:
  assumes "is_double t" "x \<le> t" "round_double x = NegZero"
  shows "0 \<le> t"
proof (rule ccontr)
  assume "\<not> 0 \<le> t"
  then have t: "t < 0" by simp
  then have "- t * units \<le> round_units (- x * units)"
    using round_units_ge [of "- t * units" "- x * units"] is_double_units [OF assms(1)] assms(2)
    by simp
  moreover have "0 < - t * units" using t units_pos by (simp add: mult_neg_pos)
  ultimately have "round_units (\<bar>x\<bar> * units) \<noteq> 0" using t assms(2) by simp
  with assms(3) show False
    by (auto simp: round_double_def Let_def split: if_splits)
qed

text \<open>When \<open>total >= threshold\<close> is false for a number and a float that are not NaN, the
  float \<open>threshold - total\<close> is not negative.\<close>

lemma gap_of_float:
  assumes "\<not> xle (xval_of thr) (xval_of e)" "thr \<noteq> NaN" "e \<noteq> NaN"
  shows "non_negative (double_sub thr e)"
proof -
  have r: "non_negative (round_double z)" if "0 \<le> z" for z
    using that by (rule non_negative_round_double)
  have [simp]: "non_negative PInf" "non_negative NegZero" "non_negative (Fin 0)"
    by (simp_all add: non_negative_def xle_def)
  from assms show ?thesis
    by (cases thr; cases e) (auto simp: xle_def double_sub_def intro!: r)
qed

lemma gap_of_int:
  assumes "\<not> xle (xval_of thr) (Val (of_int i))" "thr \<noteq> NaN" "is_float thr"
    "to_float i = Inr e"
  shows "non_negative (double_sub thr e)"
proof -
  have r: "non_negative (round_double z)" if "0 \<le> z" for z
    using that by (rule non_negative_round_double)
  have [simp]: "non_negative PInf" "non_negative NegZero" "non_negative (Fin 0)"
    by (simp_all add: non_negative_def xle_def)
  from assms(4) have e: "round_double (of_int i) = e" "e \<noteq> PInf" "e \<noteq> NInf"
    by (auto simp: to_float_def split: double.splits)
  have nan: "e \<noteq> NaN" using e(1) by (auto simp: round_double_def Let_def split: if_splits)
  show ?thesis
  proof (cases thr)
    case (Fin t)
    with assms(1,3) have t: "is_double t" "of_int i \<le> t" by (simp_all add: xle_def)
    show ?thesis
    proof (cases e)
      case (Fin y)
      with e(1) have "y \<le> t" using round_double_mono [OF t] by simp
      then show ?thesis using \<open>thr = Fin t\<close> Fin by (auto simp: double_sub_def intro!: r)
    next
      case NegZero
      with e(1) have "0 \<le> t" using round_double_NegZero [OF t] by simp
      then show ?thesis using \<open>thr = Fin t\<close> NegZero by (auto simp: double_sub_def intro!: r)
    qed (use e nan in simp_all)
  next
    case NegZero
    with assms(1) have i: "of_int i \<le> (0::real)" by (simp add: xle_def)
    show ?thesis
    proof (cases e)
      case (Fin y)
      with e(1) have "y \<le> 0" using round_double_Fin_units(3) [of "of_int i" y] i by simp
      then show ?thesis using \<open>thr = NegZero\<close> Fin by (auto simp: double_sub_def intro!: r)
    next
      case NegZero
      then show ?thesis using \<open>thr = NegZero\<close> by (simp add: double_sub_def r)
    qed (use e nan in simp_all)
  next
    case PInf
    then show ?thesis using e nan by (cases e) (simp_all add: double_sub_def)
  next
    case NInf
    with assms(1) show ?thesis by (simp add: xle_def)
  next
    case NaN
    with assms(2) show ?thesis by simp
  qed
qed

lemma gap_non_negative:
  assumes "py_ge v thr = Inr False" "py_rsub thr v = Inr g" "is_float thr" "thr \<noteq> NaN"
    "v \<noteq> JFloat NaN"
  shows "non_negative g"
proof -
  from assms(1) obtain n where n: "as_number v = Some n"
    by (cases "as_number v") (simp_all add: py_ge_def)
  show ?thesis
  proof (cases n)
    case (PyInt i)
    with assms(2) n obtain e where e: "to_float i = Inr e" "g = double_sub thr e"
      by (auto simp: py_rsub_def bind_err_Inr_iff)
    from assms(1) n PyInt have "\<not> xle (xval_of thr) (Val (of_int i))"
      by (simp add: py_ge_def)
    from gap_of_int [OF this assms(4,3) e(1)] e(2) show ?thesis by simp
  next
    case (PyFloat e)
    with n have v: "v = JFloat e" by (cases v) (simp_all split: if_splits)
    with assms(5) have "e \<noteq> NaN" by simp
    moreover from assms(1) n PyFloat have "\<not> xle (xval_of thr) (xval_of e)"
      by (simp add: py_ge_def)
    moreover from assms(2) n PyFloat have "g = double_sub thr e" by (simp add: py_rsub_def)
    ultimately show ?thesis using gap_of_float assms(4) by simp
  qed
qed

lemma gap_of_finite_floats:
  "py_rsub (Fin t) (JFloat (Fin x)) = Inr (round_double (t - x))"
  by (simp add: py_rsub_def double_sub_def)

lemma check_threshold_printable:
  assumes "printable report" "is_float thr" "thr \<noteq> NaN" "total_percent report \<noteq> JFloat NaN"
  shows "\<exists>msg err. check_threshold report thr stack
             = Inr (at_least (total_percent report) thr, msg, err) \<and>
           (if at_least (total_percent report) thr
            then err = None \<and> (\<exists>figs. msg = Coverage_passed figs)
            else \<exists>figs shown d. msg = Coverage_failure figs (gap d) shown \<and> err = Some d \<and>
                   py_rsub thr (total_percent report) = Inr (gap d) \<and> non_negative (gap d) \<and>
                   coverage_percent d = total_percent report \<and> threshold d = thr)"
proof -
  from assms(1) have p: "fits_float (total_percent report)" "fits_float (statement_percent report)"
    "fits_float (branch_percent report)" "fits_float (function_percent report)"
    "list_all (\<lambda>e. fits_float (snd e)) (take 5 (uncovered_files report))"
    by (simp_all add: printable_def)
  from figures_of_printable [OF p(1-4)]
  obtain figs where figs: "figures_of report thr stack = Inr figs" by blast
  from top_files_printable [OF p(5)]
  obtain shown where shown: "top_files (take 5 (uncovered_files report)) = Inr shown" by blast
  from fits_float_rsub [OF p(1)]
  obtain g where g: "py_rsub thr (total_percent report) = Inr g" by blast
  note ge = fits_float_ge [OF p(1), of thr]
  show ?thesis
  proof (cases "at_least (total_percent report) thr")
    case True
    then show ?thesis using ge figs by (simp add: check_threshold_def)
  next
    case False
    with ge have "py_ge (total_percent report) thr = Inr False" by simp
    from gap_non_negative [OF this g assms(2,3,4)] have "non_negative g" .
    then show ?thesis using False ge figs shown g by (simp add: check_threshold_def)
  qed
qed

text \<open>
  C7 as stated fails: \<open>json\<close> reads \<open>NaN\<close> as a total, for which the check fails with the
  gap NaN, which is not at least 0; and for the total 12.3 against the threshold 80.0 the
  gap is the float 67.7, which is not the difference of the two floats.
\<close>

theorem coverage_gap_counterexample:
  "validate_coverage default_validator nan_world ''coverage.json'' =
     Inr (False,
          Coverage_failure
            \<lparr> shown_total = NaN, shown_threshold = Fin 80, shown_stack = ''Backend (Python)'',
              shown_statement = NaN, shown_branch = Fin 0, shown_function = None \<rparr> NaN [],
          Some \<lparr> coverage_percent = JFloat NaN, threshold = Fin 80, gap = NaN,
                 listed_files = [] \<rparr>) \<and>
   \<not> non_negative NaN \<and>
   map_sum id (\<lambda>r. map_option gap (snd (snd r)))
     (validate_coverage default_validator low_world ''coverage.json'')
     = Inr (Some (Fin (4763963980827853 / 70368744177664))) \<and>
   (4763963980827853 / 70368744177664 :: real) \<noteq> 80 - 3462142213541069 / 281474976710656"
proof (intro conjI)
  have "parse_coverage_py_report default_validator nan_world ''coverage.json'' =
     Inr \<lparr> total_percent = JFloat NaN, statement_percent = JFloat NaN,
           branch_percent = JFloat (Fin 0), function_percent = JFloat (Fin 0),
           line_percent = JFloat NaN, uncovered_files = [] \<rparr>"
    by (simp add: parse_coverage_py_report_def load_report_def nan_world_def bare_world_def
        nan_document_def default_validator_def sort_by_percent_def)
  then show "validate_coverage default_validator nan_world ''coverage.json'' =
     Inr (False,
          Coverage_failure
            \<lparr> shown_total = NaN, shown_threshold = Fin 80, shown_stack = ''Backend (Python)'',
              shown_statement = NaN, shown_branch = Fin 0, shown_function = None \<rparr> NaN [],
          Some \<lparr> coverage_percent = JFloat NaN, threshold = Fin 80, gap = NaN,
                 listed_files = [] \<rparr>)"
    by (simp add: validate_coverage_def detect_coverage_json check_threshold_def py_ge_def
        xle_def py_rsub_def double_sub_def figures_of_def format_1f_def py_gt_zero_def)
       (simp add: default_validator_def)
  show "\<not> non_negative NaN"
    by (simp add: non_negative_def xle_def)
  have r: "round_double (19055855923311411 / 281474976710656)
             = Fin (4763963980827853 / 70368744177664)"
    by (subst round_double_normal [where j = 46]) (simp_all add: round_half_even_def)
  have "parse_coverage_py_report default_validator low_world ''coverage.json'' =
     Inr \<lparr> total_percent = JFloat (Fin (3462142213541069 / 281474976710656)),
           statement_percent = JFloat (Fin (3462142213541069 / 281474976710656)),
           branch_percent = JFloat (Fin 0), function_percent = JFloat (Fin 0),
           line_percent = JFloat (Fin (3462142213541069 / 281474976710656)),
           uncovered_files = [] \<rparr>"
    by (simp add: parse_coverage_py_report_def load_report_def low_world_def bare_world_def
        low_document_def default_validator_def sort_by_percent_def)
  then show "map_sum id (\<lambda>r. map_option gap (snd (snd r)))
     (validate_coverage default_validator low_world ''coverage.json'')
     = Inr (Some (Fin (4763963980827853 / 70368744177664)))"
    by (simp add: validate_coverage_def detect_coverage_json check_threshold_def py_ge_def
        xle_def py_rsub_def double_sub_def figures_of_def format_1f_def py_gt_zero_def
        default_validator_def r)
  show "(4763963980827853 / 70368744177664 :: real) \<noteq> 80 - 3462142213541069 / 281474976710656"
    by simp
qed

text \<open>
  C7, amended. For a report that \<open>validate_coverage\<close> has parsed, whose percentages can be
  printed, whose total is not NaN, and a threshold that is a float other than NaN: the
  method returns, it passes exactly when \<open>total_percent >= threshold\<close> holds, on a pass
  nothing is written to stderr and no gap is reported, and on a failure the gap in the
  message and in the object on stderr is the float \<open>threshold - total_percent\<close>, which is
  not negative. For a finite float total the gap is the difference rounded to the nearest
  float, and the difference itself when that is a float.
\<close>

theorem coverage_verdict_and_gap:
  assumes "parsed_as self w report_path report thr"
    and "printable report"
    and "is_float thr" and "thr \<noteq> NaN"
    and "total_percent report \<noteq> JFloat NaN"
  shows "\<exists>msg err. validate_coverage self w report_path
             = Inr (at_least (total_percent report) thr, msg, err) \<and>
           (if at_least (total_percent report) thr
            then err = None \<and> (\<exists>figs. msg = Coverage_passed figs)
            else \<exists>figs shown d. msg = Coverage_failure figs (gap d) shown \<and> err = Some d \<and>
                   py_rsub thr (total_percent report) = Inr (gap d) \<and> non_negative (gap d) \<and>
                   coverage_percent d = total_percent report \<and> threshold d = thr \<and>
                   (\<forall>t x. thr = Fin t \<and> total_percent report = JFloat (Fin x) \<longrightarrow>
                      gap d = round_double (t - x) \<and>
                      (is_double (t - x) \<longrightarrow> gap d = Fin (t - x))))"
proof -
  have ct: "\<exists>msg err. check_threshold report thr stack
             = Inr (at_least (total_percent report) thr, msg, err) \<and>
           (if at_least (total_percent report) thr
            then err = None \<and> (\<exists>figs. msg = Coverage_passed figs)
            else \<exists>figs shown d. msg = Coverage_failure figs (gap d) shown \<and> err = Some d \<and>
                   py_rsub thr (total_percent report) = Inr (gap d) \<and> non_negative (gap d) \<and>
                   coverage_percent d = total_percent report \<and> threshold d = thr \<and>
                   (\<forall>t x. thr = Fin t \<and> total_percent report = JFloat (Fin x) \<longrightarrow>
                      gap d = round_double (t - x) \<and>
                      (is_double (t - x) \<longrightarrow> gap d = Fin (t - x))))" for stack
  proof -
    from check_threshold_printable [OF assms(2-5), of stack]
    obtain msg err where
      c: "check_threshold report thr stack = Inr (at_least (total_percent report) thr, msg, err)" and
      r: "if at_least (total_percent report) thr
          then err = None \<and> (\<exists>figs. msg = Coverage_passed figs)
          else \<exists>figs shown d. msg = Coverage_failure figs (gap d) shown \<and> err = Some d \<and>
                 py_rsub thr (total_percent report) = Inr (gap d) \<and> non_negative (gap d) \<and>
                 coverage_percent d = total_percent report \<and> threshold d = thr"
      by blast
    show ?thesis
    proof (cases "at_least (total_percent report) thr")
      case True
      with c r show ?thesis by simp
    next
      case False
      with r obtain figs shown d where
        d: "msg = Coverage_failure figs (gap d) shown" "err = Some d"
           "py_rsub thr (total_percent report) = Inr (gap d)" "non_negative (gap d)"
           "coverage_percent d = total_percent report" "threshold d = thr"
        by auto
      have "gap d = round_double (t - x) \<and> (is_double (t - x) \<longrightarrow> gap d = Fin (t - x))"
        if "thr = Fin t" "total_percent report = JFloat (Fin x)" for t x
        using d(3) that by (simp add: gap_of_finite_floats is_double_def)
      with c d False show ?thesis by (auto simp: is_double_def)
    qed
  qed
  from assms(1) show ?thesis unfolding parsed_as_def
  proof (elim disjE conjE)
    assume "detect_report_type report_path = Some Coverage_py"
      "parse_coverage_py_report self w report_path = Inr report" "thr = backend_threshold self"
    then show ?thesis using ct [of "''Backend (Python)''"] by (simp add: validate_coverage_def)
  next
    assume "detect_report_type report_path = Some Jest"
      "parse_jest_report self w report_path = Inr report" "thr = frontend_threshold self"
    then show ?thesis using ct [of "''Frontend (JS/TS)''"] by (simp add: validate_coverage_def)
  qed
qed

text \<open>The backend report with 75 per cent against 80.0 fails with the gap 5.0; the frontend
  report with 85.0 per cent against 70.0 passes; the frontend report whose total is
  69.99999999999999 fails against 70.0 with the gap 1 / 2 ^ 46, the difference itself.\<close>

theorem coverage_verdict_and_gap_witness:
  "(parsed_as default_validator coverage_py_world ''coverage.json''
      \<lparr> total_percent = JInt 75, statement_percent = JInt 75, branch_percent = JInt 60,
        function_percent = JFloat (Fin 0), line_percent = JInt 75,
        uncovered_files = [(''app/c.py'', JInt 10), (''app/b.py'', JInt 40),
                           (''app/d.py'', JInt 40)] \<rparr> (Fin 80) \<and>
    printable
      \<lparr> total_percent = JInt 75, statement_percent = JInt 75, branch_percent = JInt 60,
        function_percent = JFloat (Fin 0), line_percent = JInt 75,
        uncovered_files = [(''app/c.py'', JInt 10), (''app/b.py'', JInt 40),
                           (''app/d.py'', JInt 40)] \<rparr> \<and>
    is_float (Fin 80) \<and>
    (\<exists>msg figs shown d.
       validate_coverage default_validator coverage_py_world ''coverage.json''
         = Inr (False, msg, Some d) \<and>
       msg = Coverage_failure figs (Fin 5) shown \<and> gap d = Fin 5)) \<and>
   (is_float (Fin 70) \<and>
    (\<exists>report msg.
       parsed_as default_validator jest_world ''coverage/coverage-summary.json'' report (Fin 70) \<and>
       printable report \<and> total_percent report = JFloat (Fin 85) \<and>
       validate_coverage default_validator jest_world ''coverage/coverage-summary.json''
         = Inr (True, msg, None))) \<and>
   (is_double (70 - 4925812092436479 / 70368744177664) \<and>
    (\<exists>report msg d.
       parsed_as default_validator rounding_world ''coverage/coverage-summary.json'' report (Fin 70) \<and>
       printable report \<and>
       total_percent report = JFloat (Fin (4925812092436479 / 70368744177664)) \<and>
       validate_coverage default_validator rounding_world ''coverage/coverage-summary.json''
         = Inr (False, msg, Some d) \<and>
       gap d = Fin (70 - 4925812092436479 / 70368744177664)))"
proof (intro conjI)
  let ?r = "\<lparr> total_percent = JInt 75, statement_percent = JInt 75, branch_percent = JInt 60,
        function_percent = JFloat (Fin 0), line_percent = JInt 75,
        uncovered_files = [(''app/c.py'', JInt 10), (''app/b.py'', JInt 40),
                           (''app/d.py'', JInt 40)] \<rparr>"
  show p: "parsed_as default_validator coverage_py_world ''coverage.json'' ?r (Fin 80)"
    by (simp add: parsed_as_def detect_coverage_json coverage_py_world_report)
       (simp add: default_validator_def)
  show q: "printable ?r"
    by (simp add: printable_def fits_float_def format_1f_def to_float_numeral)
  show f: "is_float (Fin 80)"
    by (simp add: is_double_def round_double_numeral)
  have a: "\<not> at_least (JInt 75) (Fin 80)"
    by (simp add: at_least_def py_ge_def xle_def)
  have g: "py_rsub (Fin 80) (JInt 75) = Inr (Fin 5)"
    by (simp add: py_rsub_def to_float_numeral double_sub_def round_double_numeral)
  from coverage_verdict_and_gap [OF p q f] a g
  show "\<exists>msg figs shown d.
       validate_coverage default_validator coverage_py_world ''coverage.json''
         = Inr (False, msg, Some d) \<and>
       msg = Coverage_failure figs (Fin 5) shown \<and> gap d = Fin 5"
    by auto
next
  let ?r = "\<lparr> total_percent = JFloat (Fin 85), statement_percent = JInt 90,
           branch_percent = JInt 80, function_percent = JInt 70, line_percent = JInt 100,
           uncovered_files = [(''src/b.ts'', JInt 20), (''src/a.ts'', JInt 50),
                              (''src/c.ts'', JInt 50)] \<rparr>"
  show f: "is_float (Fin 70)"
    by (simp add: is_double_def round_double_numeral)
  have p: "parsed_as default_validator jest_world ''coverage/coverage-summary.json'' ?r (Fin 70)"
    by (simp add: parsed_as_def detect_coverage_summary_json jest_world_report)
       (simp add: default_validator_def)
  have q: "printable ?r"
    by (simp add: printable_def fits_float_def format_1f_def to_float_numeral)
  have a: "at_least (JFloat (Fin 85)) (Fin 70)"
    by (simp add: at_least_def py_ge_def xle_def)
  from coverage_verdict_and_gap [OF p q f] a p q
  show "\<exists>report msg.
       parsed_as default_validator jest_world ''coverage/coverage-summary.json'' report (Fin 70) \<and>
       printable report \<and> total_percent report = JFloat (Fin 85) \<and>
       validate_coverage default_validator jest_world ''coverage/coverage-summary.json''
         = Inr (True, msg, None)"
    by (intro exI [of _ ?r]) auto
next
  let ?r = "\<lparr> total_percent = JFloat (Fin (4925812092436479 / 70368744177664)),
           statement_percent = JFloat (Fin (2783083832226611 / 35184372088832)),
           branch_percent = JFloat (Fin (4383972762268467 / 70368744177664)),
           function_percent = JFloat (Fin (5256545190071501 / 70368744177664)),
           line_percent = JFloat (Fin (8993125505905459 / 140737488355328)),
           uncovered_files = [] \<rparr>"
  have "is_double (of_int 1 / 2 ^ 46)"
    by (rule is_double_dyadic) simp_all
  then show e: "is_double (70 - 4925812092436479 / 70368744177664)"
    by simp
  have f: "is_float (Fin 70)"
    by (simp add: is_double_def round_double_numeral)
  have p: "parsed_as default_validator rounding_world ''coverage/coverage-summary.json'' ?r (Fin 70)"
    by (simp add: parsed_as_def detect_coverage_summary_json rounding_world_report)
       (simp add: default_validator_def)
  have q: "printable ?r"
    by (simp add: printable_def fits_float_def format_1f_def)
  have a: "\<not> at_least (JFloat (Fin (4925812092436479 / 70368744177664))) (Fin 70)"
    by (simp add: at_least_def py_ge_def xle_def)
  from coverage_verdict_and_gap [OF p q f] a
  obtain msg d where
    v: "validate_coverage default_validator rounding_world ''coverage/coverage-summary.json''
          = Inr (False, msg, Some d)" and
    g: "\<forall>t x. Fin 70 = Fin t \<and>
          total_percent ?r = JFloat (Fin x) \<longrightarrow>
          gap d = round_double (t - x) \<and> (is_double (t - x) \<longrightarrow> gap d = Fin (t - x))"
    by auto
  from g [THEN spec, THEN spec, of 70 "4925812092436479 / 70368744177664"] e
  have "gap d = Fin (70 - 4925812092436479 / 70368744177664)"
    by (simp add: is_double_def)
  with v p q
  show "\<exists>report msg d.
       parsed_as default_validator rounding_world ''coverage/coverage-summary.json'' report (Fin 70) \<and>
       printable report \<and>
       total_percent report = JFloat (Fin (4925812092436479 / 70368744177664)) \<and>
       validate_coverage default_validator rounding_world ''coverage/coverage-summary.json''
         = Inr (False, msg, Some d) \<and>
       gap d = Fin (70 - 4925812092436479 / 70368744177664)"
    by (intro exI [of _ ?r] exI [of _ msg] exI [of _ d]) simp
qed








text \<open>
  C9. When no report is discovered (no explicit path and none of the candidate locations
  exists), when the path that is given or found does not exist, when the report's format
  is unknown or LCOV, and when parsing it raises, \<open>run\<close> returns exit code 0 with a
  warning and writes nothing to stderr; in particular it does not return 2.
\<close>

theorem no_usable_report_exits_0:
  assumes "(report_path = None \<and> list_all (\<lambda>p. \<not> path_exists w p) search_paths) \<or>
           (\<exists>p. locate_report w report_path = Some p \<and>
                (\<not> path_exists w p \<or>
                 detect_report_type p = None \<or>
                 detect_report_type p = Some Lcov \<or>
                 (detect_report_type p = Some Coverage_py \<and> isl (parse_coverage_py_report self w p)) \<or>
                 (detect_report_type p = Some Jest \<and> isl (parse_jest_report self w p))))"
  shows "\<exists>msg. run_cv self w report_path = Inr (0, msg, None) \<and> is_warning msg"
  using assms
proof (elim disjE conjE exE)
  assume "report_path = None" "list_all (\<lambda>p. \<not> path_exists w p) search_paths"
  then have "locate_report w report_path = None"
    by (auto simp: locate_report_def find_coverage_report_def find_None_iff list_all_iff)
  then show ?thesis by (simp add: run_cv_def is_warning_def)
next
  fix p assume "locate_report w report_path = Some p" "\<not> path_exists w p"
  then show ?thesis by (simp add: run_cv_def is_warning_def)
next
  fix p assume "locate_report w report_path = Some p" "detect_report_type p = None"
  then show ?thesis by (simp add: run_cv_def is_warning_def validate_coverage_def)
next
  fix p assume "locate_report w report_path = Some p" "detect_report_type p = Some Lcov"
  then show ?thesis by (simp add: run_cv_def is_warning_def validate_coverage_def)
next
  fix p assume "locate_report w report_path = Some p" "detect_report_type p = Some Coverage_py"
    "isl (parse_coverage_py_report self w p)"
  then show ?thesis
    by (cases "parse_coverage_py_report self w p")
       (simp_all add: run_cv_def is_warning_def validate_coverage_def)
next
  fix p assume "locate_report w report_path = Some p" "detect_report_type p = Some Jest"
    "isl (parse_jest_report self w p)"
  then show ?thesis
    by (cases "parse_jest_report self w p")
       (simp_all add: run_cv_def is_warning_def validate_coverage_def)
qed


text \<open>No report at all; an LCOV report found at its candidate location; a
  \<open>coverage.json\<close> that is not JSON, given explicitly.\<close>

theorem no_usable_report_exits_0_witness:
  "(list_all (\<lambda>p. \<not> path_exists bare_world p) search_paths \<and>
    (\<exists>msg. run_cv default_validator bare_world None = Inr (0, msg, None) \<and> is_warning msg)) \<and>
   (locate_report lcov_world None = Some ''coverage/lcov.info'' \<and>
    detect_report_type ''coverage/lcov.info'' = Some Lcov \<and>
    (\<exists>msg. run_cv default_validator lcov_world None = Inr (0, msg, None) \<and> is_warning msg)) \<and>
   (locate_report broken_report_world (Some ''coverage.json'') = Some ''coverage.json'' \<and>
    detect_report_type ''coverage.json'' = Some Coverage_py \<and>
    isl (parse_coverage_py_report default_validator broken_report_world ''coverage.json'') \<and>
    (\<exists>msg. run_cv default_validator broken_report_world (Some ''coverage.json'')
             = Inr (0, msg, None) \<and> is_warning msg))"
proof (intro conjI)
  show a: "list_all (\<lambda>p. \<not> path_exists bare_world p) search_paths"
    by (simp add: bare_world_def search_paths_def)
  show "\<exists>msg. run_cv default_validator bare_world None = Inr (0, msg, None) \<and> is_warning msg"
    by (rule no_usable_report_exits_0) (simp add: a)
next
  show b: "locate_report lcov_world None = Some ''coverage/lcov.info''"
    by (simp add: locate_report_def find_coverage_report_def search_paths_def lcov_world_def
        bare_world_def)
  show "detect_report_type ''coverage/lcov.info'' = Some Lcov"
    by (rule detect_lcov_info)
  show "\<exists>msg. run_cv default_validator lcov_world None = Inr (0, msg, None) \<and> is_warning msg"
    by (rule no_usable_report_exits_0) (simp add: b detect_lcov_info)
next
  show c: "locate_report broken_report_world (Some ''coverage.json'') = Some ''coverage.json''"
    by (simp add: locate_report_def)
  show "detect_report_type ''coverage.json'' = Some Coverage_py"
    by (rule detect_coverage_json)
  show d: "isl (parse_coverage_py_report default_validator broken_report_world ''coverage.json'')"
    by (simp add: parse_coverage_py_report_def load_report_def broken_report_world_def
        bare_world_def)
  show "\<exists>msg. run_cv default_validator broken_report_world (Some ''coverage.json'')
             = Inr (0, msg, None) \<and> is_warning msg"
    by (rule no_usable_report_exits_0) (simp add: c d detect_coverage_json)
qed

subsection \<open>Violations, verdicts and the cache\<close>

lemma lint_world_python_checks:
  "run_python_checks lint_world ''src/app.py'' =
     (Inr [\<lparr> vfile = JStr ''src/app.py'', line = JInt 3, column = JInt 89, rule = JStr ''E501'',
              message = JStr ''Line too long'', severity = ''ERROR'', tool = ''ruff'' \<rparr>,
           \<lparr> vfile = JStr ''src/app.py'', line = JInt 1, column = JInt 8, rule = JStr ''F401'',
              message = JStr ''os imported but unused'', severity = ''WARNING'', tool = ''ruff'' \<rparr>,
           \<lparr> vfile = JStr ''src/app.py'', line = JInt 0, column = JInt 0, rule = JStr ''UNKNOWN'',
              message = JStr ''unnamed'', severity = ''WARNING'', tool = ''ruff'' \<rparr>],
      [ruff_check_cmd ''src/app.py'', ruff_format_cmd ''src/app.py'', mypy_cmd ''src/app.py''])"
  by (simp add: run_python_checks_def ruff_check_block_def ruff_format_block_def mypy_block_def
      lint_world_def bare_world_def ruff_findings_def ruff_violation_def startswith_def
      ruff_check_cmd_def ruff_format_cmd_def mypy_cmd_def)

lemma fixed_world_python_checks:
  "run_python_checks fixed_world ''src/app.py'' =
     (Inr [], [ruff_check_cmd ''src/app.py'', ruff_format_cmd ''src/app.py'', mypy_cmd ''src/app.py''])"
  by (simp add: run_python_checks_def ruff_check_block_def ruff_format_block_def mypy_block_def
      fixed_world_def bare_world_def ruff_check_cmd_def ruff_format_cmd_def mypy_cmd_def)

lemma detect_language_app_py: "detect_language ''src/app.py'' = Some ''python''"
  by (simp add: detect_language_def LANGUAGE_MAP_def path_suffix_def path_name_def py_rfind_def
      startswith_def)

lemma ruff_violation_severity:
  assumes "ruff_violation file_path item = Inr v"
  shows "severity v = (if begins_with_E item then ''ERROR'' else ''WARNING'') \<and> tool v = ''ruff''"
proof -
  from assms obtain code is_error where
    c: "py_get item ''code'' (JStr []) = Inr code" and
    e: "py_startswith code ''E'' = Inr is_error" and
    v: "severity v = (if is_error then ''ERROR'' else ''WARNING'')" "tool v = ''ruff''"
    unfolding ruff_violation_def bind_err_Inr_iff by auto
  from e obtain s where s: "code = JStr s" "is_error = startswith s ''E''"
    by (cases code) auto
  from c obtain kvs where k: "item = JObj kvs" by (cases item) auto
  have "is_error = begins_with_E item"
  proof (cases "map_of kvs ''code''")
    case None
    with c k s show ?thesis
      by (simp add: begins_with_E_def finding_code_def startswith_def)
  next
    case (Some a)
    with c k s have "a = JStr s" by simp
    with Some k s(2) show ?thesis
      by (cases s) (simp_all add: begins_with_E_def finding_code_def startswith_def)
  qed
  with v show ?thesis by simp
qed

lemma ruff_violations_severity:
  "ruff_violations file_path items = Inr vs \<Longrightarrow>
   list_all2 (\<lambda>item v. severity v = (if begins_with_E item then ''ERROR'' else ''WARNING'') \<and>
                         tool v = ''ruff'') items vs"
proof (induction items arbitrary: vs)
  case Nil
  then show ?case by simp
next
  case (Cons item items)
  from Cons.prems obtain v vs' where
    v: "ruff_violation file_path item = Inr v" and
    r: "ruff_violations file_path items = Inr vs'" and eq: "vs = v # vs'"
    by (auto simp: bind_err_Inr_iff)
  from ruff_violation_severity [OF v] Cons.IH [OF r] eq show ?case by simp
qed


text \<open>
  C10. When ruff's stdout decodes to a document whose elements are \<open>items\<close> and the ruff
  block of \<open>run_python_checks\<close> returns the violations \<open>vs\<close>, there is one violation per
  element, in order, and its severity is \<open>ERROR\<close> exactly when the element's \<open>code\<close> is a
  string beginning with \<open>E\<close>, and \<open>WARNING\<close> otherwise, also when the element has no \<open>code\<close>.
\<close>

theorem ruff_severity_from_code:
  assumes "subprocess_run w (ruff_check_cmd file_path) = Completed returncode out err"
    and "out \<noteq> []" and "json_loads w out = Some doc" and "py_iter doc = Inr items"
    and "ruff_check_block w file_path = Inr vs"
  shows "list_all2 (\<lambda>item v. severity v = (if begins_with_E item then ''ERROR'' else ''WARNING'') \<and>
                              tool v = ''ruff'') items vs"
proof -
  from assms have "ruff_violations file_path items = Inr vs"
    by (simp add: ruff_check_block_def)
  then show ?thesis by (rule ruff_violations_severity)
qed


text \<open>The three sample findings: \<open>E501\<close> is an error, \<open>F401\<close> and the one without a code
  are warnings.\<close>

theorem ruff_severity_from_code_witness:
  "subprocess_run lint_world (ruff_check_cmd ''src/app.py'') = Completed 1 ''findings'' [] \<and>
   json_loads lint_world ''findings'' = Some ruff_findings \<and>
   (\<exists>items vs. py_iter ruff_findings = Inr items \<and>
      ruff_check_block lint_world ''src/app.py'' = Inr vs \<and>
      map begins_with_E items = [True, False, False] \<and>
      map severity vs = [''ERROR'', ''WARNING'', ''WARNING''] \<and>
      list_all2 (\<lambda>item v. severity v = (if begins_with_E item then ''ERROR'' else ''WARNING'') \<and>
                            tool v = ''ruff'') items vs)"
proof -
  have a: "subprocess_run lint_world (ruff_check_cmd ''src/app.py'') = Completed 1 ''findings'' []"
    by (simp add: lint_world_def bare_world_def)
  have b: "json_loads lint_world ''findings'' = Some ruff_findings"
    by (simp add: lint_world_def bare_world_def)
  obtain items where c: "py_iter ruff_findings = Inr items"
    and e: "map begins_with_E items = [True, False, False]"
    by (simp add: ruff_findings_def begins_with_E_def finding_code_def)
  obtain vs where d: "ruff_check_block lint_world ''src/app.py'' = Inr vs"
    and s: "map severity vs = [''ERROR'', ''WARNING'', ''WARNING'']"
    by (simp add: ruff_check_block_def a b ruff_findings_def ruff_violation_def startswith_def)
  from ruff_severity_from_code [OF a _ b c d] a b c d e s show ?thesis by simp
qed








text \<open>A lookup succeeds for any readable file that has an entry younger than \<open>CACHE_TTL\<close>
  under its path: neither the content nor its digest takes part.\<close>

lemma cache_hit_by_path:
  assumes "path_exists w file_path" and "get_file_hash w file_path \<noteq> []"
    and "cache self file_path = Some (t, vs)" and "time_at_lookup w - t < CACHE_TTL"
  shows "validate_file w file_path self =
           (Inr (vs = []), self \<lparr> violations := violations self @ vs \<rparr>)"
  using assms by (simp add: validate_file_def check_cache_def)

lemma lint_world_first_validation:
  "validate_file lint_world ''src/app.py'' new_gate = (r, g) \<Longrightarrow>
   r = Inr False \<and> cache g ''src/app.py'' = Some (101, violations g) \<and> length (violations g) = 3 \<and>
   invoked g = [ruff_check_cmd ''src/app.py'', ruff_format_cmd ''src/app.py'', mypy_cmd ''src/app.py'']"
proof -
  assume v: "validate_file lint_world ''src/app.py'' new_gate = (r, g)"
  have e: "path_exists lint_world ''src/app.py''" "time_at_update lint_world = 101"
    by (simp_all add: lint_world_def bare_world_def)
  have c: "check_cache lint_world new_gate ''src/app.py'' = None"
    by (simp add: check_cache_def new_gate_def)
  from v have "r = Inr False \<and>
      g = (update_cache lint_world new_gate ''src/app.py''
             (case fst (run_python_checks lint_world ''src/app.py'') of Inr vs \<Rightarrow> vs | Inl x \<Rightarrow> []))
          \<lparr> violations := violations new_gate @
               (case fst (run_python_checks lint_world ''src/app.py'') of Inr vs \<Rightarrow> vs | Inl x \<Rightarrow> []),
            invoked := invoked new_gate @ snd (run_python_checks lint_world ''src/app.py'') \<rparr>"
    by (simp add: validate_file_def e c detect_language_app_py lint_world_python_checks)
  then show ?thesis
    by (simp add: lint_world_python_checks update_cache_def e new_gate_def)
qed

text \<open>
  C1 (the code departs from the claim). The cache is keyed by the path; the digest of the
  content is computed but only tested for emptiness. The sample: \<open>src/app.py\<close> is validated
  at 100 seconds with three findings; it is then rewritten (other content, other digest;
  every tool would now be content) and validated again at 160 seconds, within the 1800
  seconds of \<open>CACHE_TTL\<close>. The second validation is a cache hit: it fails with the stale
  findings, runs no tool, and \<open>run\<close> returns exit code 2.
\<close>

theorem changed_file_served_from_cache:
  "read_file lint_world ''src/app.py'' = Some ''import os'' \<and>
   read_file fixed_world ''src/app.py'' = Some ''import sys'' \<and>
   get_file_hash lint_world ''src/app.py'' \<noteq> get_file_hash fixed_world ''src/app.py'' \<and>
   time_at_lookup fixed_world - time_at_update lint_world < CACHE_TTL \<and>
   fst (run_python_checks fixed_world ''src/app.py'') = Inr [] \<and>
   fst (validate_file lint_world ''src/app.py'' new_gate) = Inr False \<and>
   fst (validate_file fixed_world ''src/app.py''
         (snd (validate_file lint_world ''src/app.py'' new_gate))) = Inr False \<and>
   invoked (snd (validate_file fixed_world ''src/app.py''
         (snd (validate_file lint_world ''src/app.py'' new_gate)))) =
     invoked (snd (validate_file lint_world ''src/app.py'' new_gate)) \<and>
   fst (run fixed_world ''src/app.py'' (snd (validate_file lint_world ''src/app.py'' new_gate)))
     = Inr 2"
proof -
  obtain r g where v: "validate_file lint_world ''src/app.py'' new_gate = (r, g)"
    by (cases "validate_file lint_world ''src/app.py'' new_gate")
  note f = lint_world_first_validation [OF v]
  have h: "get_file_hash fixed_world ''src/app.py'' = ''sha256:import sys''"
    "get_file_hash lint_world ''src/app.py'' = ''sha256:import os''"
    by (simp_all add: get_file_hash_def fixed_world_def lint_world_def bare_world_def)
  have c: "check_cache fixed_world g ''src/app.py'' = Some (violations g)"
    using f by (simp add: check_cache_def h CACHE_TTL_def) (simp add: fixed_world_def bare_world_def)
  have e: "path_exists fixed_world ''src/app.py''"
    by (simp add: fixed_world_def bare_world_def)
  have v2: "validate_file fixed_world ''src/app.py'' g =
              (Inr False, g \<lparr> violations := violations g @ violations g \<rparr>)"
    using f by (auto simp add: validate_file_def c e)
  show ?thesis
    using f
    apply (simp add: v v2 h fixed_world_python_checks run_def CACHE_TTL_def)
    apply (simp add: fixed_world_def lint_world_def bare_world_def)
    done
qed


subsection \<open>Requests and tool failures\<close>

text \<open>
  C2 as stated fails: with unparsable JSON on stdin, or a terminal as stdin, and no
  positional argument, \<open>main\<close> of \<open>quality_gate.py\<close> prints its usage line and exits 1; and
  with a closed stdin \<open>python_quality_gate.py\<close> ends with an exception and exit code 1.
\<close>

theorem missing_input_exit_code_counterexample:
  "final_code (main bare_world (Stream False (Inr ''not json'')) [''quality_gate.py'']) = 1 \<and>
   final_code (main bare_world (Stream True (Inr [])) [''quality_gate.py'']) = 1 \<and>
   exit_status (main_python_gate bare_world ''.'' Closed) = 1"
  by (simp add: main_def json_load_def cli_invocation_def exit_before_run_def bare_world_def
      main_python_gate_def read_stdin_json_def)

text \<open>
  C2, amended. When stdin of \<open>quality_gate.py\<close> is a terminal, or \<open>json.load\<close> finds no
  parsable JSON on it, and no positional argument is given, the process prints its usage
  line and exits 1. When stdin is closed, or reading it raises another exception, the
  process prints its error line and exits 1. When the document is an object whose
  \<open>tool_input\<close> has no \<open>file_path\<close> (or an empty one), it prints a warning and exits 0. In
  each of these cases no target is chosen, \<open>run\<close> prints nothing and no tool is started.
  \<open>python_quality_gate.py\<close> exits 0 when \<open>json.load\<close> finds no parsable JSON on its stdin,
  and ends with an uncaught exception and exit code 1 when stdin is closed or reading it
  raises another exception; in both cases no file is checked.
\<close>

theorem unparsable_input_exit_codes:
  "((inp = Stream True content \<or>
     (inp = Stream False content \<and> json_load w content = Inl JSONDecodeError)) \<and>
    length argv < 2 \<longrightarrow>
      main w inp argv =
        \<lparr> final_code = 1, notice = Some Usage, target = None, run_output = None,
          tools_run = [] \<rparr>) \<and>
   (inp = Closed \<longrightarrow>
      main w inp argv =
        \<lparr> final_code = 1, notice = Some (Quality_gate_error AttributeError), target = None,
          run_output = None, tools_run = [] \<rparr>) \<and>
   (inp = Stream False content \<and> json_load w content = Inl e \<and> e \<noteq> JSONDecodeError \<longrightarrow>
      main w inp argv =
        \<lparr> final_code = 1, notice = Some (Quality_gate_error e), target = None,
          run_output = None, tools_run = [] \<rparr>) \<and>
   (inp = Stream False content \<and> json_load w content = Inr data \<and>
    py_get data ''tool_input'' (JObj []) = Inr tool_input \<and>
    py_get tool_input ''file_path'' JNull = Inr file_path_str \<and> \<not> truthy file_path_str \<longrightarrow>
      main w inp argv =
        \<lparr> final_code = 0, notice = Some No_file_path, target = None, run_output = None,
          tools_run = [] \<rparr>) \<and>
   (inp = Stream isatty content \<and> json_load w content = Inl JSONDecodeError \<longrightarrow>
      main_python_gate w project_root inp =
        \<lparr> exit_status = 0, uncaught = None, checked_file = None, error_lines = [] \<rparr>) \<and>
   (inp = Closed \<longrightarrow>
      main_python_gate w project_root inp =
        \<lparr> exit_status = 1, uncaught = Some AttributeError, checked_file = None,
          error_lines = [] \<rparr>) \<and>
   (inp = Stream isatty content \<and> json_load w content = Inl e \<and> e \<noteq> JSONDecodeError \<longrightarrow>
      main_python_gate w project_root inp =
        \<lparr> exit_status = 1, uncaught = Some e, checked_file = None, error_lines = [] \<rparr>)"
  by (auto simp: main_def cli_invocation_def exit_before_run_def main_python_gate_def
      read_stdin_json_def)

text \<open>No argument and a terminal, or text that is not JSON; a closed stdin; bytes that are
  not text; the empty JSON object; and the same inputs sent to \<open>python_quality_gate.py\<close>.\<close>

theorem unparsable_input_exit_codes_witness:
  "json_load bare_world (Inr ''not json'') = Inl JSONDecodeError \<and>
   json_load bare_world (Inl UnicodeDecodeError) = Inl UnicodeDecodeError \<and>
   json_load empty_request_world (Inr ''{}'') = Inr (JObj []) \<and>
   length [''quality_gate.py''] < 2 \<and>
   main bare_world (Stream True (Inr [])) [''quality_gate.py''] =
     \<lparr> final_code = 1, notice = Some Usage, target = None, run_output = None, tools_run = [] \<rparr> \<and>
   main bare_world (Stream False (Inr ''not json'')) [''quality_gate.py''] =
     \<lparr> final_code = 1, notice = Some Usage, target = None, run_output = None, tools_run = [] \<rparr> \<and>
   main bare_world Closed [''quality_gate.py''] =
     \<lparr> final_code = 1, notice = Some (Quality_gate_error AttributeError), target = None,
       run_output = None, tools_run = [] \<rparr> \<and>
   main bare_world (Stream False (Inl UnicodeDecodeError)) [''quality_gate.py''] =
     \<lparr> final_code = 1, notice = Some (Quality_gate_error UnicodeDecodeError), target = None,
       run_output = None, tools_run = [] \<rparr> \<and>
   main empty_request_world (Stream False (Inr ''{}'')) [''quality_gate.py''] =
     \<lparr> final_code = 0, notice = Some No_file_path, target = None, run_output = None,
       tools_run = [] \<rparr> \<and>
   main_python_gate bare_world ''.'' (Stream False (Inr ''not json'')) =
     \<lparr> exit_status = 0, uncaught = None, checked_file = None, error_lines = [] \<rparr> \<and>
   main_python_gate bare_world ''.'' Closed =
     \<lparr> exit_status = 1, uncaught = Some AttributeError, checked_file = None,
       error_lines = [] \<rparr> \<and>
   main_python_gate bare_world ''.'' (Stream False (Inl UnicodeDecodeError)) =
     \<lparr> exit_status = 1, uncaught = Some UnicodeDecodeError, checked_file = None,
       error_lines = [] \<rparr>"
proof -
  have a: "json_load bare_world (Inr ''not json'') = Inl JSONDecodeError"
    by (simp add: json_load_def bare_world_def)
  have b: "json_load bare_world (Inl UnicodeDecodeError) = Inl UnicodeDecodeError"
    by (simp add: json_load_def)
  have c: "json_load empty_request_world (Inr ''{}'') = Inr (JObj [])"
    by (simp add: json_load_def empty_request_world_def bare_world_def)
  note t = unparsable_input_exit_codes
  from t [where inp = "Stream True (Inr [])" and content = "Inr []" and w = bare_world
            and argv = "[''quality_gate.py'']"]
  have d: "main bare_world (Stream True (Inr [])) [''quality_gate.py''] =
     \<lparr> final_code = 1, notice = Some Usage, target = None, run_output = None, tools_run = [] \<rparr>"
    by simp
  from t [where inp = "Stream False (Inr ''not json'')" and content = "Inr ''not json''"
            and w = bare_world and argv = "[''quality_gate.py'']" and project_root = "''.''"
            and isatty = False] a
  have e: "main bare_world (Stream False (Inr ''not json'')) [''quality_gate.py''] =
     \<lparr> final_code = 1, notice = Some Usage, target = None, run_output = None, tools_run = [] \<rparr>"
    "main_python_gate bare_world ''.'' (Stream False (Inr ''not json'')) =
     \<lparr> exit_status = 0, uncaught = None, checked_file = None, error_lines = [] \<rparr>"
    by simp_all
  from t [where inp = Closed and w = bare_world and argv = "[''quality_gate.py'']"
            and project_root = "''.''"]
  have f: "main bare_world Closed [''quality_gate.py''] =
     \<lparr> final_code = 1, notice = Some (Quality_gate_error AttributeError), target = None,
       run_output = None, tools_run = [] \<rparr>"
    "main_python_gate bare_world ''.'' Closed =
     \<lparr> exit_status = 1, uncaught = Some AttributeError, checked_file = None,
       error_lines = [] \<rparr>"
    by simp_all
  from t [where inp = "Stream False (Inl UnicodeDecodeError)"
            and content = "Inl UnicodeDecodeError" and w = bare_world
            and argv = "[''quality_gate.py'']" and e = UnicodeDecodeError
            and project_root = "''.''" and isatty = False] b
  have g: "main bare_world (Stream False (Inl UnicodeDecodeError)) [''quality_gate.py''] =
     \<lparr> final_code = 1, notice = Some (Quality_gate_error UnicodeDecodeError), target = None,
       run_output = None, tools_run = [] \<rparr>"
    "main_python_gate bare_world ''.'' (Stream False (Inl UnicodeDecodeError)) =
     \<lparr> exit_status = 1, uncaught = Some UnicodeDecodeError, checked_file = None,
       error_lines = [] \<rparr>"
    by simp_all
  from t [where inp = "Stream False (Inr ''{}'')" and content = "Inr ''{}''"
            and w = empty_request_world and argv = "[''quality_gate.py'']"
            and data = "JObj []" and tool_input = "JObj []" and file_path_str = JNull] c
  have h: "main empty_request_world (Stream False (Inr ''{}'')) [''quality_gate.py''] =
     \<lparr> final_code = 0, notice = Some No_file_path, target = None, run_output = None,
       tools_run = [] \<rparr>"
    by simp
  from a b c d e f g h show ?thesis by simp
qed






text \<open>
  C4 as stated fails: when mypy cannot be found, \<open>run_python_checks\<close> appends no
  violation for it.
\<close>

theorem unavailable_tools_counterexample:
  "subprocess_run no_mypy_world (mypy_cmd ''src/app.py'') = FileNotFound \<and>
   run_python_checks no_mypy_world ''src/app.py'' =
     (Inr [], [ruff_check_cmd ''src/app.py'', ruff_format_cmd ''src/app.py'', mypy_cmd ''src/app.py''])"
  by (simp add: run_python_checks_def ruff_check_block_def ruff_format_block_def mypy_block_def
      no_mypy_world_def bare_world_def ruff_check_cmd_def ruff_format_cmd_def mypy_cmd_def)

lemma ruff_check_unavailable:
  "(subprocess_run w (ruff_check_cmd p) = TimeoutExpired \<longrightarrow>
      (\<exists>m. ruff_check_block w p = Inr [file_violation p ''TIMEOUT'' m ''ERROR'' ''ruff''])) \<and>
   (subprocess_run w (ruff_check_cmd p) = FileNotFound \<longrightarrow>
      (\<exists>m. ruff_check_block w p = Inr [file_violation p ''MISSING_TOOL'' m ''ERROR'' ''ruff'']))"
  by (auto simp: ruff_check_block_def)

lemma eslint_unavailable:
  "(subprocess_run w (eslint_cmd p) = TimeoutExpired \<longrightarrow>
      (\<exists>m. eslint_block w p = Inr [file_violation p ''TIMEOUT'' m ''ERROR'' ''eslint''])) \<and>
   (subprocess_run w (eslint_cmd p) = FileNotFound \<longrightarrow>
      (\<exists>m. eslint_block w p = Inr [file_violation p ''MISSING_TOOL'' m ''ERROR'' ''eslint'']))"
  by (auto simp: eslint_block_def)

lemma mypy_unavailable:
  "(subprocess_run w (mypy_cmd p) = TimeoutExpired \<longrightarrow>
      (\<exists>m. mypy_block w p = Inr [file_violation p ''TIMEOUT'' m ''WARNING'' ''mypy''])) \<and>
   (subprocess_run w (mypy_cmd p) = FileNotFound \<longrightarrow> mypy_block w p = Inr [])"
  by (auto simp: mypy_block_def)

lemma tsc_unavailable:
  "(subprocess_run w (tsc_cmd p) = TimeoutExpired \<longrightarrow>
      (\<exists>m. tsc_block w p = Inr [file_violation p ''TIMEOUT'' m ''WARNING'' ''tsc''])) \<and>
   (subprocess_run w (tsc_cmd p) = FileNotFound \<longrightarrow> tsc_block w p = Inr [])"
  by (auto simp: tsc_block_def)

lemma ruff_format_unavailable:
  "unavailable (subprocess_run w (ruff_format_cmd p)) \<longrightarrow> ruff_format_block w p = Inr []"
  by (auto simp: ruff_format_block_def unavailable_def)

lemma python_checks_continue:
  "ruff_check_block w p = Inr a \<and> ruff_format_block w p = Inr b \<and> mypy_block w p = Inr c \<longrightarrow>
     run_python_checks w p = (Inr (a @ b @ c), [ruff_check_cmd p, ruff_format_cmd p, mypy_cmd p])"
  by (simp add: run_python_checks_def)

lemma typescript_checks_continue:
  "eslint_block w p = Inr a \<and> tsc_block w p = Inr b \<longrightarrow>
     run_typescript_checks w p =
       (if path_suffix p = ''.ts'' \<or> path_suffix p = ''.tsx''
        then (Inr (a @ b), [eslint_cmd p, tsc_cmd p]) else (Inr a, [eslint_cmd p]))"
  by (simp add: run_typescript_checks_def)


text \<open>
  C4, amended. For the linters (ruff check, ESLint) a timeout appends one \<open>TIMEOUT\<close> and
  a missing executable one \<open>MISSING_TOOL\<close> violation, both of severity \<open>ERROR\<close>. For the
  type checkers (mypy, tsc) a timeout appends one \<open>TIMEOUT\<close> violation of severity
  \<open>WARNING\<close> and a missing executable appends nothing. For the ruff format check neither
  appends anything. In each case the block returns normally, and when the blocks return,
  every tool of the language has been run, in order, and the result is the concatenation
  of what the blocks appended.
\<close>

theorem unavailable_tools:
  "((subprocess_run w (ruff_check_cmd p) = TimeoutExpired \<longrightarrow>
      (\<exists>m. ruff_check_block w p = Inr [file_violation p ''TIMEOUT'' m ''ERROR'' ''ruff''])) \<and>
    (subprocess_run w (ruff_check_cmd p) = FileNotFound \<longrightarrow>
      (\<exists>m. ruff_check_block w p = Inr [file_violation p ''MISSING_TOOL'' m ''ERROR'' ''ruff'']))) \<and>
   ((subprocess_run w (eslint_cmd p) = TimeoutExpired \<longrightarrow>
      (\<exists>m. eslint_block w p = Inr [file_violation p ''TIMEOUT'' m ''ERROR'' ''eslint''])) \<and>
    (subprocess_run w (eslint_cmd p) = FileNotFound \<longrightarrow>
      (\<exists>m. eslint_block w p = Inr [file_violation p ''MISSING_TOOL'' m ''ERROR'' ''eslint'']))) \<and>
   ((subprocess_run w (mypy_cmd p) = TimeoutExpired \<longrightarrow>
      (\<exists>m. mypy_block w p = Inr [file_violation p ''TIMEOUT'' m ''WARNING'' ''mypy''])) \<and>
    (subprocess_run w (mypy_cmd p) = FileNotFound \<longrightarrow> mypy_block w p = Inr [])) \<and>
   ((subprocess_run w (tsc_cmd p) = TimeoutExpired \<longrightarrow>
      (\<exists>m. tsc_block w p = Inr [file_violation p ''TIMEOUT'' m ''WARNING'' ''tsc''])) \<and>
    (subprocess_run w (tsc_cmd p) = FileNotFound \<longrightarrow> tsc_block w p = Inr [])) \<and>
   (unavailable (subprocess_run w (ruff_format_cmd p)) \<longrightarrow> ruff_format_block w p = Inr []) \<and>
   (ruff_check_block w p = Inr a \<and> ruff_format_block w p = Inr b \<and> mypy_block w p = Inr c \<longrightarrow>
     run_python_checks w p = (Inr (a @ b @ c), [ruff_check_cmd p, ruff_format_cmd p, mypy_cmd p])) \<and>
   (eslint_block w p = Inr a \<and> tsc_block w p = Inr b \<longrightarrow>
     run_typescript_checks w p =
       (if path_suffix p = ''.ts'' \<or> path_suffix p = ''.tsx''
        then (Inr (a @ b), [eslint_cmd p, tsc_cmd p]) else (Inr a, [eslint_cmd p])))"
  using ruff_check_unavailable [of w p] eslint_unavailable [of w p] mypy_unavailable [of w p]
    tsc_unavailable [of w p] ruff_format_unavailable [of w p]
    python_checks_continue [of w p a b c] typescript_checks_continue [of w p a b]
  by (intro conjI) blast+


lemma path_suffix_ui_ts: "path_suffix ''web/ui.ts'' = ''.ts''"
  by (simp add: path_suffix_def path_name_def py_rfind_def startswith_def)

text \<open>Nothing installed: one \<open>MISSING_TOOL\<close> error per linter and nothing else. Every tool
  timing out: a \<open>TIMEOUT\<close> error of the linter and a \<open>TIMEOUT\<close> warning of the type
  checker.\<close>

theorem unavailable_tools_witness:
  "(\<exists>m. run_python_checks bare_world ''src/app.py'' =
       (Inr [file_violation ''src/app.py'' ''MISSING_TOOL'' m ''ERROR'' ''ruff''],
        [ruff_check_cmd ''src/app.py'', ruff_format_cmd ''src/app.py'', mypy_cmd ''src/app.py''])) \<and>
   (\<exists>m. run_typescript_checks bare_world ''web/ui.ts'' =
       (Inr [file_violation ''web/ui.ts'' ''MISSING_TOOL'' m ''ERROR'' ''eslint''],
        [eslint_cmd ''web/ui.ts'', tsc_cmd ''web/ui.ts''])) \<and>
   (\<exists>m n. run_python_checks timeout_world ''src/app.py'' =
       (Inr [file_violation ''src/app.py'' ''TIMEOUT'' m ''ERROR'' ''ruff'',
             file_violation ''src/app.py'' ''TIMEOUT'' n ''WARNING'' ''mypy''],
        [ruff_check_cmd ''src/app.py'', ruff_format_cmd ''src/app.py'', mypy_cmd ''src/app.py''])) \<and>
   (\<exists>m n. run_typescript_checks timeout_world ''web/ui.ts'' =
       (Inr [file_violation ''web/ui.ts'' ''TIMEOUT'' m ''ERROR'' ''eslint'',
             file_violation ''web/ui.ts'' ''TIMEOUT'' n ''WARNING'' ''tsc''],
        [eslint_cmd ''web/ui.ts'', tsc_cmd ''web/ui.ts'']))"
proof -
  have nf: "subprocess_run bare_world cmd = FileNotFound" for cmd
    by (simp add: bare_world_def)
  have tm: "subprocess_run timeout_world cmd = TimeoutExpired" for cmd
    by (simp add: timeout_world_def bare_world_def)
  have u: "unavailable FileNotFound" "unavailable TimeoutExpired"
    by (simp_all add: unavailable_def)
  note b1 = unavailable_tools [of bare_world "''src/app.py''" "[]" "[]" "[]"]
  note b2 = unavailable_tools [of bare_world "''web/ui.ts''" "[]" "[]" "[]"]
  note t1 = unavailable_tools [of timeout_world "''src/app.py''" "[]" "[]" "[]"]
  note t2 = unavailable_tools [of timeout_world "''web/ui.ts''" "[]" "[]" "[]"]
  from b1 have "\<exists>m. ruff_check_block bare_world ''src/app.py''
           = Inr [file_violation ''src/app.py'' ''MISSING_TOOL'' m ''ERROR'' ''ruff'']"
    by (simp add: nf)
  then obtain m1 where
    p1: "ruff_check_block bare_world ''src/app.py''
           = Inr [file_violation ''src/app.py'' ''MISSING_TOOL'' m1 ''ERROR'' ''ruff'']" ..
  from b1 have p1': "ruff_format_block bare_world ''src/app.py'' = Inr []"
    "mypy_block bare_world ''src/app.py'' = Inr []"
    by (simp_all add: nf u)
  from b2 have "\<exists>m. eslint_block bare_world ''web/ui.ts''
           = Inr [file_violation ''web/ui.ts'' ''MISSING_TOOL'' m ''ERROR'' ''eslint'']"
    by (simp add: nf)
  then obtain m2 where
    p2: "eslint_block bare_world ''web/ui.ts''
           = Inr [file_violation ''web/ui.ts'' ''MISSING_TOOL'' m2 ''ERROR'' ''eslint'']" ..
  from b2 have p2': "tsc_block bare_world ''web/ui.ts'' = Inr []"
    by (simp add: nf)
  from t1 have "\<exists>m. ruff_check_block timeout_world ''src/app.py''
           = Inr [file_violation ''src/app.py'' ''TIMEOUT'' m ''ERROR'' ''ruff'']"
    by (simp add: tm)
  then obtain m3 where
    p3: "ruff_check_block timeout_world ''src/app.py''
           = Inr [file_violation ''src/app.py'' ''TIMEOUT'' m3 ''ERROR'' ''ruff'']" ..
  from t1 have "\<exists>n. mypy_block timeout_world ''src/app.py''
           = Inr [file_violation ''src/app.py'' ''TIMEOUT'' n ''WARNING'' ''mypy'']"
    by (simp add: tm)
  then obtain n3 where
    p3': "mypy_block timeout_world ''src/app.py''
           = Inr [file_violation ''src/app.py'' ''TIMEOUT'' n3 ''WARNING'' ''mypy'']" ..
  from t1 have p3'': "ruff_format_block timeout_world ''src/app.py'' = Inr []"
    by (simp add: tm u)
  from t2 have "\<exists>m. eslint_block timeout_world ''web/ui.ts''
           = Inr [file_violation ''web/ui.ts'' ''TIMEOUT'' m ''ERROR'' ''eslint'']"
    by (simp add: tm)
  then obtain m4 where
    p4: "eslint_block timeout_world ''web/ui.ts''
           = Inr [file_violation ''web/ui.ts'' ''TIMEOUT'' m4 ''ERROR'' ''eslint'']" ..
  from t2 have "\<exists>n. tsc_block timeout_world ''web/ui.ts''
           = Inr [file_violation ''web/ui.ts'' ''TIMEOUT'' n ''WARNING'' ''tsc'']"
    by (simp add: tm)
  then obtain n4 where
    p4': "tsc_block timeout_world ''web/ui.ts''
           = Inr [file_violation ''web/ui.ts'' ''TIMEOUT'' n4 ''WARNING'' ''tsc'']" ..
  from unavailable_tools [of bare_world "''src/app.py''"
         "[file_violation ''src/app.py'' ''MISSING_TOOL'' m1 ''ERROR'' ''ruff'']" "[]" "[]"] p1 p1'
  have q1: "run_python_checks bare_world ''src/app.py'' =
       (Inr [file_violation ''src/app.py'' ''MISSING_TOOL'' m1 ''ERROR'' ''ruff''],
        [ruff_check_cmd ''src/app.py'', ruff_format_cmd ''src/app.py'', mypy_cmd ''src/app.py''])"
    by simp
  from unavailable_tools [of bare_world "''web/ui.ts''"
         "[file_violation ''web/ui.ts'' ''MISSING_TOOL'' m2 ''ERROR'' ''eslint'']" "[]"] p2 p2'
  have q2: "run_typescript_checks bare_world ''web/ui.ts'' =
       (Inr [file_violation ''web/ui.ts'' ''MISSING_TOOL'' m2 ''ERROR'' ''eslint''],
        [eslint_cmd ''web/ui.ts'', tsc_cmd ''web/ui.ts''])"
    by (simp add: path_suffix_ui_ts)
  from unavailable_tools [of timeout_world "''src/app.py''"
         "[file_violation ''src/app.py'' ''TIMEOUT'' m3 ''ERROR'' ''ruff'']" "[]"
         "[file_violation ''src/app.py'' ''TIMEOUT'' n3 ''WARNING'' ''mypy'']"] p3 p3' p3''
  have q3: "run_python_checks timeout_world ''src/app.py'' =
       (Inr [file_violation ''src/app.py'' ''TIMEOUT'' m3 ''ERROR'' ''ruff'',
             file_violation ''src/app.py'' ''TIMEOUT'' n3 ''WARNING'' ''mypy''],
        [ruff_check_cmd ''src/app.py'', ruff_format_cmd ''src/app.py'', mypy_cmd ''src/app.py''])"
    by simp
  from unavailable_tools [of timeout_world "''web/ui.ts''"
         "[file_violation ''web/ui.ts'' ''TIMEOUT'' m4 ''ERROR'' ''eslint'']"
         "[file_violation ''web/ui.ts'' ''TIMEOUT'' n4 ''WARNING'' ''tsc'']"] p4 p4'
  have q4: "run_typescript_checks timeout_world ''web/ui.ts'' =
       (Inr [file_violation ''web/ui.ts'' ''TIMEOUT'' m4 ''ERROR'' ''eslint'',
             file_violation ''web/ui.ts'' ''TIMEOUT'' n4 ''WARNING'' ''tsc''],
        [eslint_cmd ''web/ui.ts'', tsc_cmd ''web/ui.ts''])"
    by (simp add: path_suffix_ui_ts)
  from q1 q2 q3 q4 show ?thesis by blast
qed
end
